theory Spec2Isabelle
  imports Complex_Main "HOL-Library.AList"
begin

section \<open>Coordinate arrays\<close>

text \<open>
  The module works on numpy arrays of float64 coordinates.  A coordinate is either a number
  or the not-a-number marker; numbers are idealised as reals.  An array is a list of rows,
  a row a list of columns.
\<close>

datatype coord = Num real | NaN

fun isnan :: "coord \<Rightarrow> bool" where
  "isnan NaN = True"
| "isnan (Num v) = False"

type_synonym row = "coord list"
type_synonym array = "row list"

text \<open>The exceptions of Python that the modelled functions can raise.\<close>

datatype pyerror =
    ValueError string
  | UnboundLocalError
  | IndexError
  | KeyError
  | AttributeError
  | NotImplementedError
  | TypeError
  | OtherError string

text \<open>The test of the clause \<^verbatim>\<open>except ValueError\<close>.\<close>

fun is_value_error :: "pyerror \<Rightarrow> bool" where
  "is_value_error (ValueError m) = True"
| "is_value_error e = False"

subsection \<open>Splitting at the rows that hold a NaN\<close>

text \<open>
  \<^verbatim>\<open>splits = np.where(np.isnan(path[:, :2].astype('float')).sum(axis=1))[0]\<close>:
  the indices of the rows whose first two columns hold at least one NaN.
\<close>

definition nan_splits :: "array \<Rightarrow> nat list" where
  "nan_splits a = [i \<leftarrow> [0..<length a]. length (filter isnan (take 2 (a ! i))) \<noteq> 0]"

text \<open>A slice \<^verbatim>\<open>xs[st:en]\<close> with \<open>0 \<le> st\<close> and \<open>0 \<le> en\<close>.\<close>

definition slice :: "'a list \<Rightarrow> nat \<Rightarrow> nat \<Rightarrow> 'a list" where
  "slice xs st en = take (en - st) (drop st xs)"

text \<open>
  \<^verbatim>\<open>np.split(ary, indices)\<close> cuts along the division points
  \<^verbatim>\<open>[0] + list(indices) + [len(ary)]\<close> and returns the slices between consecutive points.
\<close>

fun sub_arys :: "'a list \<Rightarrow> nat list \<Rightarrow> 'a list list" where
  "sub_arys xs (st # en # ds) = slice xs st en # sub_arys xs (en # ds)"
| "sub_arys xs ds = []"

definition np_split :: "'a list \<Rightarrow> nat list \<Rightarrow> 'a list list" where
  "np_split xs indices = sub_arys xs (0 # indices @ [length xs])"

text \<open>
  \<^verbatim>\<open>paths = np.split(path, splits+1) if len(splits) else [path]\<close>
\<close>

definition split_paths :: "array \<Rightarrow> array list" where
  "split_paths a =
     (let splits = nan_splits a
      in if splits \<noteq> [] then np_split a (map Suc splits) else [a])"

text \<open>
  The head of each loop over the parts:
  \<^verbatim>\<open>if i != (len(paths)-1): path = path[:-1]\<close>
\<close>

definition drop_last_rows :: "array list \<Rightarrow> array list" where
  "drop_last_rows paths =
     map (\<lambda>(i, path). if i \<noteq> length paths - 1 then butlast path else path)
       (enumerate 0 paths)"

definition segments :: "array \<Rightarrow> array list" where
  "segments a = drop_last_rows (split_paths a)"


text \<open>
  A row is a part boundary when one of its first two columns is a NaN; the count of such
  columns is what \<^verbatim>\<open>.sum(axis=1)\<close> computes in \<open>nan_splits\<close>.
\<close>

definition is_sentinel :: "row \<Rightarrow> bool" where
  "is_sentinel r = (length (filter isnan (take 2 r)) \<noteq> 0)"

text \<open>
  The reading of the segmentation that the code implements, written by recursion on the rows:
  a sentinel row closes the current part and is not kept; every other row joins the
  current part.
\<close>

fun split_at_sentinels :: "array \<Rightarrow> array list" where
  "split_at_sentinels [] = [[]]"
| "split_at_sentinels (r # rs) =
     (if is_sentinel r then [] # split_at_sentinels rs
      else (r # hd (split_at_sentinels rs)) # tl (split_at_sentinels rs))"

text \<open>The same recursion for the parts before their last rows are dropped.\<close>

fun cut_after :: "array \<Rightarrow> array list" where
  "cut_after [] = [[]]"
| "cut_after (r # rs) =
     (if is_sentinel r then [r] # cut_after rs
      else (r # hd (cut_after rs)) # tl (cut_after rs))"

fun drop_all_but_final :: "'a list list \<Rightarrow> 'a list list" where
  "drop_all_but_final (p # q # ps) = butlast p # drop_all_but_final (q # ps)"
| "drop_all_but_final ps = ps"

section \<open>Geometries\<close>

text \<open>
  The geometry objects of the geometry library, as values.  The constructors stand for the
  library's constructors, which are taken as total: a line or ring holds the coordinate rows
  it was built from, a polygon its shell and its hole rings, a multi-part geometry its parts.
\<close>

datatype geometry =
    Point coord coord
  | LineString array
  | LinearRing array
  | Polygon array "geometry list"
  | MultiPoint "geometry list"
  | MultiLineString "geometry list"
  | MultiPolygon "geometry list"
  | GeometryCollection "geometry list"

text \<open>\<^verbatim>\<open>geom.exterior\<close>: only a polygon has the attribute.\<close>

fun exterior :: "geometry \<Rightarrow> pyerror + geometry" where
  "exterior (Polygon shell holes) = Inr (LinearRing shell)"
| "exterior g = Inl AttributeError"

text \<open>Running a fallible function over a list, stopping at the first exception.\<close>

fun map_err :: "('a \<Rightarrow> 'e + 'b) \<Rightarrow> 'a list \<Rightarrow> 'e + 'b list" where
  "map_err f [] = Inr []"
| "map_err f (x # xs) =
     (case f x of
        Inl e \<Rightarrow> Inl e
      | Inr y \<Rightarrow> (case map_err f xs of Inl e \<Rightarrow> Inl e | Inr ys \<Rightarrow> Inr (y # ys)))"

section \<open>Line Builder: \<^verbatim>\<open>path_to_geom\<close>\<close>

text \<open>
  \<^verbatim>\<open>path.split(datatype=datatype)\<close> yields arrays, or geometries when the element is
  backed by a geodataframe; the constructor records which.
\<close>

datatype path_element = ArrayPaths "array list" | GeomPaths "geometry list"

text \<open>
  The lines that one array contributes (lines 79 to 86):
  each part of at least two rows becomes a LineString of its first two columns.
\<close>

definition array_lines :: "array \<Rightarrow> geometry list" where
  "array_lines path =
     map (\<lambda>p. LineString (map (take 2) p))
       (filter (\<lambda>p. \<not> length p < 2) (segments path))"

text \<open>The lines that one geometry contributes (lines 88 to 100).\<close>

fun geom_lines :: "geometry \<Rightarrow> pyerror + geometry list" where
  "geom_lines (MultiPolygon gs) = map_err exterior gs"
| "geom_lines (Polygon shell holes) = Inr [LinearRing shell]"
| "geom_lines (MultiLineString gs) = Inr gs"
| "geom_lines g = Inr [g]"

text \<open>
  The result: \<^verbatim>\<open>MultiLineString(lines) if multi else lines\<close>.
\<close>

datatype lines_result = Geom geometry | GeomList "geometry list"

definition collect :: "bool \<Rightarrow> geometry list \<Rightarrow> lines_result" where
  "collect multi lines = (if multi then Geom (MultiLineString lines) else GeomList lines)"

fun path_to_geom :: "path_element \<Rightarrow> bool \<Rightarrow> pyerror + lines_result" where
  "path_to_geom (ArrayPaths paths) multi =
     Inr (collect multi (concat (map array_lines paths)))"
| "path_to_geom (GeomPaths gs) multi =
     (case map_err geom_lines gs of
        Inl e \<Rightarrow> Inl e
      | Inr ls \<Rightarrow> Inr (collect multi (concat ls)))"

section \<open>Geometry-Dict Assembler\<close>

text \<open>
  A feature in columnar form holds its two coordinate columns and its other columns, whose
  values are opaque.  An emitted record holds the other columns and the geometry.
\<close>

record 'v columns =
  xcol :: "coord list"
  ycol :: "coord list"
  others :: "(string \<times> 'v) list"

record 'v geom_dict =
  attrs :: "(string \<times> 'v) list"
  geometry :: geometry

text \<open>
  The interface of the element decides the path taken: a geodataframe and a geometry
  dictionary already hold records; every other interface is split into columns.
\<close>

datatype 'v element =
    GeoDataFrame "'v geom_dict list"
  | GeomDictionary "'v geom_dict list"
  | Columnar "'v columns list"

text \<open>
  \<^verbatim>\<open>np.column_stack([xs, ys])\<close> of two columns raises when their lengths differ.
\<close>

definition column_stack :: "coord list \<Rightarrow> coord list \<Rightarrow> pyerror + array" where
  "column_stack xs ys =
     (if length xs = length ys then Inr (map2 (\<lambda>x y. [x, y]) xs ys)
      else Inl (ValueError ''all the input array dimensions must match''))"

subsection \<open>\<^verbatim>\<open>path_to_geom_dicts\<close>\<close>

text \<open>
  The local variable \<^verbatim>\<open>geom\<close> lives across the iterations of the loop over the
  features: it is unbound (\<open>None\<close>) until a feature assigns it, and the two branches of
  lines 227 to 230 leave it as it is when a feature has no line.  Line 231 reads it.
\<close>

definition subpaths_of :: "array \<Rightarrow> geometry list" where
  "subpaths_of array =
     map LineString (filter (\<lambda>arr. \<not> length arr < 2) (segments array))"

definition assign_geom :: "geometry option \<Rightarrow> geometry list \<Rightarrow> geometry option" where
  "assign_geom geom subpaths =
     (if length subpaths = 1 then Some (subpaths ! 0)
      else if subpaths \<noteq> [] then Some (MultiLineString subpaths)
      else geom)"

fun path_features :: "geometry option \<Rightarrow> 'v columns list \<Rightarrow> pyerror + 'v geom_dict list" where
  "path_features geom [] = Inr []"
| "path_features geom (path # rest) =
     (case column_stack (xcol path) (ycol path) of
        Inl e \<Rightarrow> Inl e
      | Inr array \<Rightarrow>
          (case assign_geom geom (subpaths_of array) of
             None \<Rightarrow> Inl UnboundLocalError
           | Some g \<Rightarrow>
               (case path_features (Some g) rest of
                  Inl e \<Rightarrow> Inl e
                | Inr geoms \<Rightarrow> Inr (\<lparr>attrs = others path, geometry = g\<rparr> # geoms))))"

fun path_to_geom_dicts :: "'v element \<Rightarrow> pyerror + 'v geom_dict list" where
  "path_to_geom_dicts (GeoDataFrame rows) = Inr rows"
| "path_to_geom_dicts (GeomDictionary data) = Inr data"
| "path_to_geom_dicts (Columnar features) = path_features None features"

subsection \<open>\<^verbatim>\<open>polygons_to_geom_dicts\<close>\<close>

text \<open>
  \<^verbatim>\<open>polygons.holes()\<close> gives, for each feature, for each part, the list of its holes, each
  hole an array.  \<^verbatim>\<open>subholes\<close> wraps every hole of feature \<open>i\<close> in a LinearRing.
  Reading a list past its end raises.
\<close>

definition item :: "'a list \<Rightarrow> nat \<Rightarrow> pyerror + 'a" where
  "item xs i = (if i < length xs then Inr (xs ! i) else Inl IndexError)"

text \<open>
  The constructors of the geometry library refuse an array that is too short:
  \<^verbatim>\<open>LineString(arr)\<close> needs two rows and \<^verbatim>\<open>LinearRing(h)\<close> three.
\<close>

definition line_string :: "array \<Rightarrow> pyerror + geometry" where
  "line_string arr =
     (if length arr < 2
      then Inl (ValueError ''LineStrings must have at least 2 coordinate tuples'')
      else Inr (LineString arr))"

definition linear_ring :: "array \<Rightarrow> pyerror + geometry" where
  "linear_ring h =
     (if length h < 3
      then Inl (ValueError ''A LinearRing must have at least 3 coordinate tuples'')
      else Inr (LinearRing h))"

text \<open>Line 170: \<^verbatim>\<open>[[LinearRing(h) for h in hs] for hs in holes[i]]\<close>.\<close>

definition subholes_of :: "array list list list \<Rightarrow> nat \<Rightarrow> pyerror + geometry list list" where
  "subholes_of holes i =
     (case item holes i of
        Inl e \<Rightarrow> Inl e
      | Inr hss \<Rightarrow> map_err (map_err linear_ring) hss)"

text \<open>The shell that \<^verbatim>\<open>Polygon(poly.exterior, holes=hs)\<close> takes over from \<^verbatim>\<open>poly\<close>.\<close>

fun exterior_coords :: "geometry \<Rightarrow> array" where
  "exterior_coords (Polygon shell holes) = shell"
| "exterior_coords (LineString a) = a"
| "exterior_coords (LinearRing a) = a"
| "exterior_coords g = []"

text \<open>
  The loop over the parts of one feature (lines 171 to 186), over the parts paired with
  their positions; the state is the flag \<^verbatim>\<open>invalid\<close> and the list \<^verbatim>\<open>subpolys\<close>.
\<close>

fun subpolys_loop ::
  "bool \<Rightarrow> bool \<Rightarrow> geometry list list \<Rightarrow> bool \<Rightarrow> (nat \<times> array) list \<Rightarrow>
   bool \<times> geometry list \<Rightarrow> pyerror + bool \<times> geometry list" where
  "subpolys_loop skip_invalid has_holes subholes no_splits [] st = Inr st"
| "subpolys_loop skip_invalid has_holes subholes no_splits ((j, arr) # rest) (invalid, subpolys) =
     (if length arr < 3 then
        (if skip_invalid
         then subpolys_loop skip_invalid has_holes subholes no_splits rest (invalid, subpolys)
         else
           (case line_string arr of
              Inl e \<Rightarrow> Inl e
            | Inr poly \<Rightarrow>
                subpolys_loop skip_invalid has_holes subholes no_splits rest
                  (True, subpolys @ [poly])))
      else if no_splits then
        (case (if has_holes then item subholes j else Inr []) of
           Inl e \<Rightarrow> Inl e
         | Inr hs \<Rightarrow>
             subpolys_loop skip_invalid has_holes subholes no_splits rest
               (invalid, subpolys @ [Polygon arr hs]))
      else
        (case (if has_holes then item subholes j else Inr []) of
           Inl e \<Rightarrow> Inl e
         | Inr hs \<Rightarrow>
             subpolys_loop skip_invalid has_holes subholes no_splits rest
               (invalid, subpolys @ [Polygon (exterior_coords (Polygon arr [])) hs])))"

text \<open>The parts of feature \<open>i\<close> and the geometries built from them.\<close>

definition feature_subpolys ::
  "bool \<Rightarrow> bool \<Rightarrow> array list list list \<Rightarrow> nat \<Rightarrow> array \<Rightarrow> pyerror + bool \<times> geometry list" where
  "feature_subpolys skip_invalid has_holes holes i array =
     (case (if has_holes then subholes_of holes i else Inr []) of
        Inl e \<Rightarrow> Inl e
      | Inr subholes \<Rightarrow>
          subpolys_loop skip_invalid has_holes subholes (nan_splits array = [])
            (enumerate 0 (segments array)) (False, []))"

text \<open>
  Lines 188 to 198: the records that a feature adds to the output, from its other columns,
  the flag \<^verbatim>\<open>invalid\<close> and its list \<^verbatim>\<open>subpolys\<close>.
\<close>

definition emit_records :: "(string \<times> 'v) list \<Rightarrow> bool \<Rightarrow> geometry list \<Rightarrow> 'v geom_dict list" where
  "emit_records polygon invalid subpolys =
     (if invalid then map (\<lambda>sp. \<lparr>attrs = polygon, geometry = sp\<rparr>) subpolys
      else if length subpolys = 1 then [\<lparr>attrs = polygon, geometry = subpolys ! 0\<rparr>]
      else if subpolys \<noteq> [] then [\<lparr>attrs = polygon, geometry = MultiPolygon subpolys\<rparr>]
      else [])"

definition feature_records ::
  "bool \<Rightarrow> bool \<Rightarrow> array list list list \<Rightarrow> nat \<Rightarrow> 'v columns \<Rightarrow> pyerror + 'v geom_dict list" where
  "feature_records skip_invalid has_holes holes i polygon =
     (case column_stack (xcol polygon) (ycol polygon) of
        Inl e \<Rightarrow> Inl e
      | Inr array \<Rightarrow>
          (case feature_subpolys skip_invalid has_holes holes i array of
             Inl e \<Rightarrow> Inl e
           | Inr (invalid, subpolys) \<Rightarrow> Inr (emit_records (others polygon) invalid subpolys)))"

fun polygons_to_geom_dicts ::
  "'v element \<Rightarrow> bool \<Rightarrow> array list list list \<Rightarrow> bool \<Rightarrow> pyerror + 'v geom_dict list" where
  "polygons_to_geom_dicts (GeoDataFrame rows) has_holes holes skip_invalid = Inr rows"
| "polygons_to_geom_dicts (GeomDictionary data) has_holes holes skip_invalid = Inr data"
| "polygons_to_geom_dicts (Columnar features) has_holes holes skip_invalid =
     (case map_err (\<lambda>(i, polygon). feature_records skip_invalid has_holes holes i polygon)
             (enumerate 0 features) of
        Inl e \<Rightarrow> Inl e
      | Inr polys \<Rightarrow> Inr (concat polys))"

text \<open>
  The positional reading of the holes.  The geometry of the part at position \<open>j\<close> of feature
  \<open>i\<close> is the Polygon of the part with the rings of \<open>holes[i][j]\<close>, or the LineString of the
  part when it has fewer than three rows; the geometries of a feature are those of its parts
  in order, the short parts left out when \<^verbatim>\<open>skip_invalid\<close> is set.
\<close>

definition part_geometry :: "array list list list \<Rightarrow> nat \<Rightarrow> nat \<Rightarrow> array \<Rightarrow> geometry" where
  "part_geometry holes i j arr =
     (if length arr < 3 then LineString arr
      else Polygon arr (map LinearRing (holes ! i ! j)))"

definition feature_geometries ::
  "array list list list \<Rightarrow> bool \<Rightarrow> nat \<Rightarrow> array \<Rightarrow> geometry list" where
  "feature_geometries holes skip_invalid i array =
     map (\<lambda>(j, arr). part_geometry holes i j arr)
       (filter (\<lambda>(j, arr). \<not> (skip_invalid \<and> length arr < 3))
          (enumerate 0 (segments array)))"

definition stacked :: "'v columns \<Rightarrow> array" where
  "stacked polygon = map2 (\<lambda>x y. [x, y]) (xcol polygon) (ycol polygon)"

text \<open>
  A feature at position \<open>i\<close> is well formed for the holes when its two columns have one
  length, the holes hold a list for it with one entry for each of its parts, every hole has at
  least three rows, and, unless \<^verbatim>\<open>skip_invalid\<close> is set, every part has at least two rows.
\<close>

definition well_formed ::
  "array list list list \<Rightarrow> bool \<Rightarrow> nat \<times> 'v columns \<Rightarrow> bool" where
  "well_formed holes skip_invalid p =
     (case p of (i, polygon) \<Rightarrow>
        length (xcol polygon) = length (ycol polygon)
        \<and> i < length holes
        \<and> length (segments (stacked polygon)) \<le> length (holes ! i)
        \<and> list_all (list_all (\<lambda>h. 3 \<le> length h)) (holes ! i)
        \<and> (skip_invalid \<or> list_all (\<lambda>arr. 2 \<le> length arr) (segments (stacked polygon))))"

definition expected_records ::
  "array list list list \<Rightarrow> bool \<Rightarrow> nat \<times> 'v columns \<Rightarrow> 'v geom_dict list" where
  "expected_records holes skip_invalid p =
     (case p of (i, polygon) \<Rightarrow>
        emit_records (others polygon)
          (\<not> skip_invalid \<and> list_ex (\<lambda>arr. length arr < 3) (segments (stacked polygon)))
          (feature_geometries holes skip_invalid i (stacked polygon)))"

section \<open>Array Recoverer: \<^verbatim>\<open>geom_to_array\<close>\<close>

text \<open>
  \<^verbatim>\<open>geom.array_interface_base['data']\<close> is the flat coordinate buffer of a geometry: of a
  point, a line or a ring its own coordinates row after row, of a polygon those of its shell;
  a multi-part geometry has none.
\<close>

fun array_interface_data :: "geometry \<Rightarrow> pyerror + coord list" where
  "array_interface_data (Point x y) = Inr [x, y]"
| "array_interface_data (LineString a) = Inr (concat a)"
| "array_interface_data (LinearRing a) = Inr (concat a)"
| "array_interface_data (Polygon shell holes) = Inr (concat shell)"
| "array_interface_data g = Inl NotImplementedError"

text \<open>\<^verbatim>\<open>np.array(arr).reshape(int(len(arr)/2), 2)\<close> of a buffer of even length.\<close>

fun reshape2 :: "coord list \<Rightarrow> array" where
  "reshape2 (x # y # zs) = [x, y] # reshape2 zs"
| "reshape2 zs = []"

definition geom_to_arr :: "geometry \<Rightarrow> pyerror + array" where
  "geom_to_arr geom =
     (case array_interface_data geom of
        Inl e \<Rightarrow> Inl e
      | Inr arr \<Rightarrow>
          Inr (reshape2 (if length arr mod 2 \<noteq> 0 then butlast arr else arr)))"

text \<open>
  The loop of lines 263 to 268 appends, for each part, its column and then the one-element
  column \<^verbatim>\<open>[np.NaN]\<close>, once for \<^verbatim>\<open>xs\<close> with column 0 and once for \<^verbatim>\<open>ys\<close> with
  column 1.
\<close>

definition column :: "nat \<Rightarrow> array \<Rightarrow> coord list" where
  "column c arr = map (\<lambda>r. r ! c) arr"

definition part_columns :: "nat \<Rightarrow> array list \<Rightarrow> coord list list" where
  "part_columns c arrs = concat (map (\<lambda>arr. [column c arr, [NaN]]) arrs)"

text \<open>\<^verbatim>\<open>np.concatenate(xs[:-1]) if xs else np.array([])\<close>\<close>

definition concatenate_but_last :: "coord list list \<Rightarrow> coord list" where
  "concatenate_but_last xs = (if xs \<noteq> [] then concat (butlast xs) else [])"

fun parts_of :: "geometry \<Rightarrow> geometry list" where
  "parts_of (MultiPoint gs) = gs"
| "parts_of (MultiLineString gs) = gs"
| "parts_of (MultiPolygon gs) = gs"
| "parts_of (GeometryCollection gs) = gs"
| "parts_of g = []"

fun geom_to_array :: "geometry \<Rightarrow> pyerror + array" where
  "geom_to_array (Point x y) = Inr [[x, y]]"
| "geom_to_array (Polygon shell holes) =
     column_stack (column 0 shell) (column 1 shell)"
| "geom_to_array (LineString a) = geom_to_arr (LineString a)"
| "geom_to_array (LinearRing a) = geom_to_arr (LinearRing a)"
| "geom_to_array geom =
     (case map_err geom_to_arr (parts_of geom) of
        Inl e \<Rightarrow> Inl e
      | Inr arrs \<Rightarrow>
          column_stack (concatenate_but_last (part_columns 0 arrs))
                       (concatenate_but_last (part_columns 1 arrs)))"

text \<open>The arrays of the parts with one row between each two neighbours.\<close>

fun join_parts :: "'a list \<Rightarrow> 'a list list \<Rightarrow> 'a list" where
  "join_parts sep [] = []"
| "join_parts sep [a] = a"
| "join_parts sep (a # b # rest) = a @ sep @ join_parts sep (b # rest)"

section \<open>Extent Reprojector\<close>

subsection \<open>\<^verbatim>\<open>wrap_lons\<close>\<close>

text \<open>
  The remainder \<^verbatim>\<open>%\<close> of Python and numpy on floats takes the sign of the divisor.
  Floats are idealised as reals; for a zero divisor numpy yields NaN, which the model leaves
  out: the one caller passes the period 360.
\<close>

definition py_mod :: "real \<Rightarrow> real \<Rightarrow> real" where
  "py_mod a p = a - p * of_int \<lfloor>a / p\<rfloor>"

definition wrap_lons :: "real list \<Rightarrow> real \<Rightarrow> real \<Rightarrow> real list" where
  "wrap_lons lons base period = map (\<lambda>lon. py_mod (lon - base + period * 2) period + base) lons"

subsection \<open>\<^verbatim>\<open>project_extents\<close>\<close>

text \<open>
  A coordinate reference system, with what the function reads of it: the name of its class,
  whether the class is a cylindrical projection, its limits, its boundary ring and its
  threshold.  Two systems are equal when they agree on all of it.
\<close>

record crs =
  kind :: string
  cylindrical :: bool
  x_limits :: "real \<times> real"
  y_limits :: "real \<times> real"
  boundary :: "(real \<times> real) list"
  threshold :: real

text \<open>
  The operations of the geometry library on planar geometries, which the function calls and
  whose code is not part of this module, are parameters of the model.
\<close>

record 'g geom_lib =
  polygon :: "(real \<times> real) list \<Rightarrow> 'g"
  buffer :: "'g \<Rightarrow> real \<Rightarrow> 'g"
  intersection :: "'g \<Rightarrow> 'g \<Rightarrow> 'g"
  bounds :: "'g \<Rightarrow> real \<times> real \<times> real \<times> real"

text \<open>\<^verbatim>\<open>np.linspace(start, stop, num)\<close> for \<open>num > 1\<close>.\<close>

definition linspace :: "real \<Rightarrow> real \<Rightarrow> nat \<Rightarrow> real list" where
  "linspace start stop num =
     map (\<lambda>i. start + real i * ((stop - start) / real (num - 1))) [0..<num]"

text \<open>Lines 40 to 47: the range of x after wrapping or clamping.\<close>

definition x_range :: "crs \<Rightarrow> real \<Rightarrow> real \<Rightarrow> real \<times> real" where
  "x_range src_proj x1 x2 =
     (if cylindrical src_proj then
        (let lons = wrap_lons (linspace x1 x2 10000) (- 180) 360
         in (Min (set lons), Max (set lons)))
      else
        (let (cx1, cx2) = x_limits src_proj
         in (if x1 < cx1 then cx1 else x1, if x2 > cx2 then cx2 else x2)))"

definition projection_error :: "string \<Rightarrow> string \<Rightarrow> pyerror" where
  "projection_error src_name dest_name =
     ValueError (''Could not project data from '' @ src_name @ '' projection to '' @ dest_name
       @ '' projection. Ensure the coordinate reference system (crs) matches your data ''
       @ ''and the kdims.'')"

text \<open>Lines 27 to 47: the box after clamping, shrinking and wrapping.\<close>

definition domain_box :: "real \<times> real \<times> real \<times> real \<Rightarrow> crs \<Rightarrow> real \<Rightarrow> real \<times> real \<times> real \<times> real" where
  "domain_box extents src_proj tol =
     (let (x1, y1, x2, y2) = extents;
          (cy1, cy2) = y_limits src_proj;
          y1 = (if y1 < cy1 then cy1 else y1);
          y2 = (if y2 > cy2 then cy2 else y2);
          x1 = x1 + tol;
          x2 = x2 - tol;
          y1 = y1 + tol;
          y2 = y2 - tol;
          (x1, x2) = x_range src_proj x1 x2
      in (x1, y1, x2, y2))"

text \<open>Lines 49 to 51: the ring of the corners of a box.\<close>

fun box_ring :: "real \<times> real \<times> real \<times> real \<Rightarrow> (real \<times> real) list" where
  "box_ring (x1, y1, x2, y2) = [(x1, y1), (x2, y1), (x2, y2), (x1, y2), (x1, y1)]"

text \<open>Lines 56 to 58: the boundary eroded by the threshold, cut with the domain.\<close>

definition geom_in_src_proj :: "'g geom_lib \<Rightarrow> crs \<Rightarrow> 'g \<Rightarrow> 'g" where
  "geom_in_src_proj lib src_proj domain_in_src_proj =
     (let boundary_poly = polygon lib (boundary src_proj);
          eroded_boundary = buffer lib boundary_poly (- threshold src_proj)
      in intersection lib eroded_boundary domain_in_src_proj)"

text \<open>
  \<open>project_geometry dest geom src\<close> stands for \<^verbatim>\<open>dest.project_geometry(geom, src)\<close>, which
  may raise.  Only a \<^verbatim>\<open>ValueError\<close> is caught by line 61.
\<close>

definition project_extents ::
  "'g geom_lib \<Rightarrow> (crs \<Rightarrow> 'g \<Rightarrow> crs \<Rightarrow> pyerror + 'g) \<Rightarrow>
   real \<times> real \<times> real \<times> real \<Rightarrow> crs \<Rightarrow> crs \<Rightarrow> real \<Rightarrow>
   pyerror + real \<times> real \<times> real \<times> real" where
  "project_extents lib project_geometry extents src_proj dest_proj tol =
     (let domain_in_src_proj = polygon lib (box_ring (domain_box extents src_proj tol));
          boundary_poly = polygon lib (boundary src_proj)
      in if src_proj \<noteq> dest_proj then
           (case project_geometry dest_proj
                   (geom_in_src_proj lib src_proj domain_in_src_proj) src_proj of
              Inl (ValueError m) \<Rightarrow> Inl (projection_error (kind src_proj) (kind dest_proj))
            | Inl e \<Rightarrow> Inl e
            | Inr geom_in_crs \<Rightarrow> Inr (bounds lib geom_in_crs))
         else Inr (bounds lib (intersection lib boundary_poly domain_in_src_proj)))"

text \<open>
  A box lies inside the boundary of a system, as the library computes it, when cutting the
  boundary with the ring of the box leaves the bounds of the box.
\<close>

definition inside_boundary :: "'g geom_lib \<Rightarrow> crs \<Rightarrow> real \<times> real \<times> real \<times> real \<Rightarrow> bool" where
  "inside_boundary lib src_proj box =
     (bounds lib (intersection lib (polygon lib (boundary src_proj)) (polygon lib (box_ring box)))
        = box)"

text \<open>
  An instance of the library for geometries that are rectangles with sides parallel to the
  axes, each given by its bounds, \<open>None\<close> the empty geometry.
\<close>

definition rect_polygon :: "(real \<times> real) list \<Rightarrow> (real \<times> real \<times> real \<times> real) option" where
  "rect_polygon ps =
     (if ps = [] then None
      else Some (Min (set (map fst ps)), Min (set (map snd ps)),
                 Max (set (map fst ps)), Max (set (map snd ps))))"

fun rect_buffer :: "(real \<times> real \<times> real \<times> real) option \<Rightarrow> real \<Rightarrow> (real \<times> real \<times> real \<times> real) option" where
  "rect_buffer None d = None"
| "rect_buffer (Some (x1, y1, x2, y2)) d =
     (if x1 - d \<le> x2 + d \<and> y1 - d \<le> y2 + d then Some (x1 - d, y1 - d, x2 + d, y2 + d)
      else None)"

fun rect_intersection ::
  "(real \<times> real \<times> real \<times> real) option \<Rightarrow> (real \<times> real \<times> real \<times> real) option \<Rightarrow>
   (real \<times> real \<times> real \<times> real) option" where
  "rect_intersection (Some (a1, b1, a2, b2)) (Some (c1, d1, c2, d2)) =
     (if max a1 c1 \<le> min a2 c2 \<and> max b1 d1 \<le> min b2 d2
      then Some (max a1 c1, max b1 d1, min a2 c2, min b2 d2) else None)"
| "rect_intersection g h = None"

fun rect_bounds :: "(real \<times> real \<times> real \<times> real) option \<Rightarrow> real \<times> real \<times> real \<times> real" where
  "rect_bounds (Some b) = b"
| "rect_bounds None = (0, 0, 0, 0)"

definition rect_lib :: "(real \<times> real \<times> real \<times> real) option geom_lib" where
  "rect_lib = \<lparr>polygon = rect_polygon, buffer = rect_buffer,
               intersection = rect_intersection, bounds = rect_bounds\<rparr>"

text \<open>The equirectangular system of the projection library, in degrees.\<close>

definition plate_carree :: crs where
  "plate_carree = \<lparr>kind = ''PlateCarree'', cylindrical = True,
     x_limits = (- 180, 180), y_limits = (- 90, 90),
     boundary = [(- 180, - 90), (- 180, 90), (180, 90), (180, - 90), (- 180, - 90)],
     threshold = 1 / 2\<rparr>"

definition mercator :: crs where
  "mercator = \<lparr>kind = ''Mercator'', cylindrical = False,
     x_limits = (- 20037508, 20037508), y_limits = (- 15496570, 18764656),
     boundary = [(- 20037508, - 15496570), (- 20037508, 18764656), (20037508, 18764656),
                 (20037508, - 15496570), (- 20037508, - 15496570)],
     threshold = 20037\<rparr>"

section \<open>\<^verbatim>\<open>to_ccw\<close>\<close>

text \<open>
  The test \<^verbatim>\<open>is_ccw\<close> of a ring and the function \<^verbatim>\<open>orient\<close> belong to the geometry
  library and are parameters.
\<close>

fun to_ccw :: "(geometry \<Rightarrow> bool) \<Rightarrow> (geometry \<Rightarrow> geometry) \<Rightarrow> geometry \<Rightarrow> geometry" where
  "to_ccw is_ccw orient (Polygon shell holes) =
     (if \<not> is_ccw (LinearRing shell) then orient (Polygon shell holes)
      else Polygon shell holes)"
| "to_ccw is_ccw orient geom = geom"

fun is_polygon :: "geometry \<Rightarrow> bool" where
  "is_polygon (Polygon shell holes) = True"
| "is_polygon g = False"

text \<open>
  The two library functions as the geometry library computes them.  The arithmetic of floats
  gives NaN when an operand is NaN, and a comparison with NaN is false.
\<close>

fun fadd :: "coord \<Rightarrow> coord \<Rightarrow> coord" where
  "fadd (Num a) (Num b) = Num (a + b)"
| "fadd a b = NaN"

fun fsub :: "coord \<Rightarrow> coord \<Rightarrow> coord" where
  "fsub (Num a) (Num b) = Num (a - b)"
| "fsub a b = NaN"

fun fmul :: "coord \<Rightarrow> coord \<Rightarrow> coord" where
  "fmul (Num a) (Num b) = Num (a * b)"
| "fmul a b = NaN"

fun fhalf :: "coord \<Rightarrow> coord" where
  "fhalf (Num a) = Num (a / 2)"
| "fhalf NaN = NaN"

fun fneg :: "coord \<Rightarrow> coord" where
  "fneg (Num a) = Num (- a)"
| "fneg NaN = NaN"

fun nonneg :: "coord \<Rightarrow> bool" where
  "nonneg (Num a) = (0 \<le> a)"
| "nonneg NaN = False"

fun nonpos :: "coord \<Rightarrow> bool" where
  "nonpos (Num a) = (a \<le> 0)"
| "nonpos NaN = False"

text \<open>The x and the y of a row; a row that lacks one has no number there.\<close>

fun x_of :: "row \<Rightarrow> coord" where
  "x_of (x # r) = x"
| "x_of [] = NaN"

fun y_of :: "row \<Rightarrow> coord" where
  "y_of (x # y # r) = y"
| "y_of r = NaN"

definition numeric_row :: "row \<Rightarrow> bool" where
  "numeric_row r = (\<not> isnan (x_of r) \<and> \<not> isnan (y_of r))"

text \<open>
  The signed area of a closed ring, by the shoelace sum over its neighbouring vertices; it is
  positive for a counter-clockwise ring.
\<close>

definition cross :: "row \<Rightarrow> row \<Rightarrow> coord" where
  "cross p q = fsub (fmul (x_of p) (y_of q)) (fmul (x_of q) (y_of p))"

fun shoelace :: "array \<Rightarrow> coord" where
  "shoelace (p # q # ps) = fadd (cross p q) (shoelace (q # ps))"
| "shoelace ps = Num 0"

definition signed_area :: "array \<Rightarrow> coord" where
  "signed_area ring = fhalf (shoelace ring)"

text \<open>\<^verbatim>\<open>ring.is_ccw\<close>: the signed area is at least zero.\<close>

definition shapely_is_ccw :: "geometry \<Rightarrow> bool" where
  "shapely_is_ccw ring = nonneg (signed_area (exterior_coords ring))"

text \<open>
  \<^verbatim>\<open>orient(polygon)\<close> keeps the shell when its signed area is at least zero and a hole when
  its signed area is at most zero, and reverses the coordinates of the ring otherwise.
\<close>

definition orient_hole :: "geometry \<Rightarrow> geometry" where
  "orient_hole ring =
     (if nonpos (signed_area (exterior_coords ring)) then ring
      else LinearRing (rev (exterior_coords ring)))"

fun shapely_orient :: "geometry \<Rightarrow> geometry" where
  "shapely_orient (Polygon shell holes) =
     Polygon (if nonneg (signed_area shell) then shell else rev shell) (map orient_hole holes)"
| "shapely_orient g = g"

section \<open>Proj-String Parser: \<^verbatim>\<open>proj_to_cartopy\<close>\<close>

subsection \<open>Strings\<close>

text \<open>
  \<^verbatim>\<open>s.split(c)\<close> with a separator of one character, reading the string from the left:
  \<open>cur\<close> is the piece being read.
\<close>

fun split_from :: "char \<Rightarrow> string \<Rightarrow> string \<Rightarrow> string list" where
  "split_from c cur [] = [cur]"
| "split_from c cur (x # xs) =
     (if x = c then cur # split_from c [] xs else split_from c (cur @ [x]) xs)"

definition split_on :: "char \<Rightarrow> string \<Rightarrow> string list" where
  "split_on c s = split_from c [] s"

text \<open>
  \<^verbatim>\<open>s.strip()\<close> removes the white space at both ends: the characters 9 to 13, 28 to 32,
  133 and 160.
\<close>

definition isspace :: "char \<Rightarrow> bool" where
  "isspace c =
     (let n = (of_char c :: nat)
      in (9 \<le> n \<and> n \<le> 13) \<or> (28 \<le> n \<and> n \<le> 32) \<or> n = 133 \<or> n = 160)"

definition strip :: "string \<Rightarrow> string" where
  "strip s = rev (dropWhile isspace (rev (dropWhile isspace s)))"

subsection \<open>The parser\<close>

text \<open>
  A value of a parameter is a float when \<^verbatim>\<open>float(v)\<close> succeeds and the text otherwise;
  the standard parallels are a pair.  The built-in \<^verbatim>\<open>float\<close> is a parameter of the model:
  it gives \<open>None\<close> where it raises.
\<close>

datatype pval = Float real | Str string | Tuple pval pval

definition to_float :: "(string \<Rightarrow> real option) \<Rightarrow> string \<Rightarrow> pval" where
  "to_float float_of v = (case float_of v of Some x \<Rightarrow> Float x | None \<Rightarrow> Str v)"

datatype proj_class = TransverseMercator | LambertConformal | Mercator | UTM | PlateCarree

fun class_name :: "proj_class \<Rightarrow> string" where
  "class_name TransverseMercator = ''TransverseMercator''"
| "class_name LambertConformal = ''LambertConformal''"
| "class_name Mercator = ''Mercator''"
| "class_name UTM = ''UTM''"
| "class_name PlateCarree = ''PlateCarree''"

definition km_proj :: "(string \<times> string) list" where
  "km_proj = [(''lon_0'', ''central_longitude''), (''lat_0'', ''central_latitude''),
              (''x_0'', ''false_easting''), (''y_0'', ''false_northing''),
              (''k'', ''scale_factor''), (''zone'', ''zone'')]"

definition km_globe :: "(string \<times> string) list" where
  "km_globe = [(''a'', ''semimajor_axis''), (''b'', ''semiminor_axis'')]"

definition km_std :: "(string \<times> string) list" where
  "km_std = [(''lat_1'', ''lat_1''), (''lat_2'', ''lat_2'')]"

text \<open>
  The state of the loop over the tokens: the class \<^verbatim>\<open>cl\<close>, unbound until a known
  projection name is read, and the three dictionaries, which keep the order of insertion.
\<close>

record parse_state =
  cl :: "proj_class option"
  kw_proj :: "(string \<times> pval) list"
  kw_globe :: "(string \<times> pval) list"
  kw_std :: "(string \<times> pval) list"

text \<open>Lines 396 to 404: four tests in a row, a later one overriding an earlier one.\<close>

definition select_class :: "pval \<Rightarrow> proj_class option \<Rightarrow> proj_class option" where
  "select_class v c =
     (let c = (if v = Str ''tmerc'' then Some TransverseMercator else c);
          c = (if v = Str ''lcc'' then Some LambertConformal else c);
          c = (if v = Str ''merc'' then Some Mercator else c);
          c = (if v = Str ''utm'' then Some UTM else c)
      in c)"

definition store :: "(string \<times> string) list \<Rightarrow> string \<Rightarrow> pval \<Rightarrow> (string \<times> pval) list \<Rightarrow> (string \<times> pval) list" where
  "store km k v kw = (case map_of km k of Some name \<Rightarrow> AList.update name v kw | None \<Rightarrow> kw)"

definition token_step :: "(string \<Rightarrow> real option) \<Rightarrow> parse_state \<Rightarrow> string \<Rightarrow> parse_state" where
  "token_step float_of st s =
     (let s = split_on CHR ''='' s
      in if length s \<noteq> 2 then st
         else
           (let k = strip (s ! 0);
                v = to_float float_of (strip (s ! 1))
            in \<lparr>cl = (if k = ''proj'' then select_class v (cl st) else cl st),
                kw_proj = store km_proj k v (kw_proj st),
                kw_globe = store km_globe k v (kw_globe st),
                kw_std = store km_std k v (kw_std st)\<rparr>))"

definition parse_tokens :: "(string \<Rightarrow> real option) \<Rightarrow> string \<Rightarrow> parse_state" where
  "parse_tokens float_of srs =
     foldl (token_step float_of) \<lparr>cl = None, kw_proj = [], kw_globe = [], kw_std = []\<rparr>
       (split_on CHR ''+'' srs)"

text \<open>
  What \<^verbatim>\<open>check_crs\<close> hands over: nothing, or a projection that tells whether it is
  geographic and gives its definition string.  A construction is a class of the projection
  library with the globe and the keyword arguments it is called with.
\<close>

record pyproj =
  is_latlong :: bool
  srs :: string

record construction =
  cls :: proj_class
  globe :: "(string \<times> pval) list option"
  kwargs :: "(string \<times> pval) list"

definition lookup :: "(string \<times> pval) list \<Rightarrow> string \<Rightarrow> pyerror + pval" where
  "lookup kw k = (case map_of kw k of Some v \<Rightarrow> Inr v | None \<Rightarrow> Inl KeyError)"

text \<open>
  Lines 412 to 421, from the state the loop has left: the class, the globe and the keyword
  arguments of the call that ends the function.
\<close>

definition call_arguments :: "parse_state \<Rightarrow> pyerror + construction" where
  "call_arguments st =
     (let globe = (if kw_globe st \<noteq> [] then Some (kw_globe st) else None)
      in case (if kw_std st \<noteq> [] then
                 (case lookup (kw_std st) ''lat_1'' of
                    Inl e \<Rightarrow> Inl e
                  | Inr l1 \<Rightarrow>
                      (case lookup (kw_std st) ''lat_2'' of
                         Inl e \<Rightarrow> Inl e
                       | Inr l2 \<Rightarrow>
                           Inr (AList.update ''standard_parallels'' (Tuple l1 l2) (kw_proj st))))
               else Inr (kw_proj st)) of
           Inl e \<Rightarrow> Inl e
         | Inr kw \<Rightarrow>
             (case cl st of
                None \<Rightarrow> Inl UnboundLocalError
              | Some c \<Rightarrow>
                  (let kw = (if class_name c = ''Mercator''
                             then AList.delete ''false_northing'' (AList.delete ''false_easting'' kw)
                             else kw)
                   in Inr \<lparr>cls = c, globe = globe, kwargs = kw\<rparr>)))"

text \<open>
  Line 423, \<^verbatim>\<open>cl(globe=globe, **kw_proj)\<close>.  The classes belong to the projection library;
  the parameters of their constructors, those that must be given and those that may, are a
  parameter of the model.  A call with a keyword that the constructor does not have, or
  without one that it needs, raises a \<^verbatim>\<open>TypeError\<close>.
\<close>

record signature =
  required :: "string list"
  optional :: "string list"

text \<open>Whether a constructor has a parameter of a given name.\<close>

definition has_parameter :: "signature \<Rightarrow> string \<Rightarrow> bool" where
  "has_parameter sg k = (k \<in> set (required sg) \<or> k \<in> set (optional sg))"

definition call_class :: "(proj_class \<Rightarrow> signature) \<Rightarrow> construction \<Rightarrow> pyerror + construction" where
  "call_class signatures c =
     (let given = ''globe'' # map fst (kwargs c);
          sg = signatures (cls c)
      in if list_all (has_parameter sg) given
            \<and> list_all (\<lambda>k. k \<in> set given) (required sg)
         then Inr c else Inl TypeError)"

definition construct :: "(proj_class \<Rightarrow> signature) \<Rightarrow> parse_state \<Rightarrow> pyerror + construction" where
  "construct signatures st =
     (case call_arguments st of
        Inl e \<Rightarrow> Inl e
      | Inr c \<Rightarrow> call_class signatures c)"

text \<open>
  \<open>osr\<close> is the round trip of the definition string through the GDAL bindings when they
  are installed.
\<close>

definition proj_to_cartopy ::
  "(string \<Rightarrow> real option) \<Rightarrow> (proj_class \<Rightarrow> signature) \<Rightarrow> (string \<Rightarrow> string) option \<Rightarrow>
   pyproj option \<Rightarrow> pyerror + construction" where
  "proj_to_cartopy float_of signatures osr proj =
     (case proj of
        None \<Rightarrow> Inl AttributeError
      | Some proj \<Rightarrow>
          (if is_latlong proj then Inr \<lparr>cls = PlateCarree, globe = None, kwargs = []\<rparr>
           else
             (let srs = (case osr of Some f \<Rightarrow> f (srs proj) | None \<Rightarrow> srs proj)
              in construct signatures (parse_tokens float_of srs))))"

text \<open>
  An instance of the table: the constructors as a release of the projection library declares
  them.  The constructor of the Mercator projection has no central latitude.
\<close>

fun cartopy_signatures :: "proj_class \<Rightarrow> signature" where
  "cartopy_signatures TransverseMercator =
     \<lparr>required = [],
      optional = [''central_longitude'', ''central_latitude'', ''false_easting'',
                  ''false_northing'', ''scale_factor'', ''globe'', ''approx'']\<rparr>"
| "cartopy_signatures LambertConformal =
     \<lparr>required = [],
      optional = [''central_longitude'', ''central_latitude'', ''false_easting'',
                  ''false_northing'', ''standard_parallels'', ''globe'', ''cutoff'']\<rparr>"
| "cartopy_signatures Mercator =
     \<lparr>required = [],
      optional = [''central_longitude'', ''min_latitude'', ''max_latitude'', ''globe'',
                  ''latitude_true_scale'', ''false_easting'', ''false_northing'',
                  ''scale_factor'']\<rparr>"
| "cartopy_signatures UTM =
     \<lparr>required = [''zone''], optional = [''southern_hemisphere'', ''globe'']\<rparr>"
| "cartopy_signatures PlateCarree =
     \<lparr>required = [], optional = [''central_longitude'', ''globe'']\<rparr>"

text \<open>The built-in \<^verbatim>\<open>float\<close> on the texts made of decimal digits only.\<close>

fun digits_value :: "nat \<Rightarrow> string \<Rightarrow> nat option" where
  "digits_value acc [] = Some acc"
| "digits_value acc (c # cs) =
     (let n = (of_char c :: nat)
      in if 48 \<le> n \<and> n \<le> 57 then digits_value (10 * acc + (n - 48)) cs else None)"

definition float_of_digits :: "string \<Rightarrow> real option" where
  "float_of_digits s = (if s = [] then None else map_option real (digits_value 0 s))"

text \<open>An array whose rows have two columns each.\<close>

definition pair_rows :: "array \<Rightarrow> bool" where
  "pair_rows a = list_all (\<lambda>r. length r = 2) a"

section \<open>Properties of the segmentation\<close>

lemma nan_splits_Cons:
  "nan_splits (r # a) = (if is_sentinel r then [0] else []) @ map Suc (nan_splits a)"
proof -
  have "[0..<length (r # a)] = 0 # map Suc [0..<length a]"
    by (simp add: upt_conv_Cons map_Suc_upt del: upt_Suc)
  then show ?thesis
    by (simp add: nan_splits_def is_sentinel_def filter_map comp_def del: upt_Suc)
qed

lemma slice_Cons_Suc: "slice (r # xs) (Suc st) (Suc en) = slice xs st en"
  by (simp add: slice_def)

lemma slice_Cons_0: "slice (r # xs) 0 (Suc en) = r # slice xs 0 en"
  by (simp add: slice_def)

lemma sub_arys_shift: "sub_arys (r # xs) (map Suc ds) = sub_arys xs ds"
  by (induction xs ds rule: sub_arys.induct) (simp_all add: slice_Cons_Suc)

lemma sub_arys_Cons_0:
  assumes "ds \<noteq> []"
  shows "sub_arys (r # xs) (0 # map Suc ds) =
         (r # hd (sub_arys xs (0 # ds))) # tl (sub_arys xs (0 # ds))"
proof -
  from assms obtain d ds' where ds: "ds = d # ds'" by (cases ds) auto
  have "sub_arys (r # xs) (Suc d # map Suc ds') = sub_arys xs (d # ds')"
    using sub_arys_shift [of r xs "d # ds'"] by simp
  then show ?thesis by (simp add: ds slice_Cons_0)
qed

lemma cut_after_nonempty: "cut_after a \<noteq> []"
  by (cases a) simp_all

lemma np_split_cut_after:
  "sub_arys a (0 # map Suc (nan_splits a) @ [length a]) = cut_after a"
proof (induction a)
  case Nil
  show ?case by (simp add: nan_splits_def slice_def)
next
  case (Cons r a)
  let ?D = "map Suc (nan_splits a) @ [length a]"
  have shift: "sub_arys (r # a) (map Suc (0 # ?D)) = sub_arys a (0 # ?D)"
    by (rule sub_arys_shift)
  show ?case
  proof (cases "is_sentinel r")
    case True
    have "sub_arys (r # a) (0 # map Suc (nan_splits (r # a)) @ [length (r # a)])
          = slice (r # a) 0 (Suc 0) # sub_arys (r # a) (map Suc (0 # ?D))"
      by (simp add: nan_splits_Cons True)
    also have "\<dots> = [r] # cut_after a"
      by (simp only: shift Cons.IH) (simp add: slice_def)
    finally show ?thesis using True by simp
  next
    case False
    have "sub_arys (r # a) (0 # map Suc (nan_splits (r # a)) @ [length (r # a)])
          = sub_arys (r # a) (0 # map Suc ?D)"
      by (simp add: nan_splits_Cons False)
    also have "\<dots> = (r # hd (sub_arys a (0 # ?D))) # tl (sub_arys a (0 # ?D))"
      by (rule sub_arys_Cons_0) simp
    finally show ?thesis using False by (simp add: Cons.IH)
  qed
qed

lemma split_paths_cut_after: "split_paths a = cut_after a"
proof (cases "nan_splits a = []")
  case True
  have "sub_arys a (0 # map Suc (nan_splits a) @ [length a]) = [a]"
    by (simp add: True slice_def)
  then show ?thesis
    using np_split_cut_after [of a] by (simp add: split_paths_def True)
next
  case False
  then show ?thesis
    by (simp add: split_paths_def np_split_def np_split_cut_after)
qed

lemma drop_last_rows_aux:
  "map (\<lambda>(i, p). if i \<noteq> n + length ps - 1 then butlast p else p) (enumerate n ps)
   = drop_all_but_final ps"
proof (induction ps arbitrary: n rule: drop_all_but_final.induct)
  case (1 p q ps)
  from 1 [of "Suc n"] show ?case by simp
qed simp_all

lemma drop_last_rows_eq: "drop_last_rows ps = drop_all_but_final ps"
  using drop_last_rows_aux [of 0 ps] by (simp add: drop_last_rows_def)

lemma cut_after_head_nonempty: "cut_after a = p # q # qs \<Longrightarrow> p \<noteq> []"
  by (cases a) (auto split: if_splits)

lemma drop_cut_after: "drop_all_but_final (cut_after a) = split_at_sentinels a"
proof (induction a)
  case Nil
  show ?case by simp
next
  case (Cons r a)
  obtain p ps where c: "cut_after a = p # ps"
    using cut_after_nonempty [of a] by (cases "cut_after a") auto
  have s: "split_at_sentinels a = drop_all_but_final (p # ps)"
    using Cons.IH c by simp
  show ?case
  proof (cases "is_sentinel r")
    case True
    then show ?thesis by (simp add: s c)
  next
    case False
    show ?thesis
    proof (cases ps)
      case Nil
      then show ?thesis using False by (simp add: s c)
    next
      case (Cons q qs)
      with c have "p \<noteq> []" using cut_after_head_nonempty by blast
      then show ?thesis using False Cons by (simp add: s c)
    qed
  qed
qed

lemma segments_eq: "segments a = split_at_sentinels a"
  by (simp add: segments_def split_paths_cut_after drop_last_rows_eq drop_cut_after)

lemma cut_after_sentinel_last:
  "list_all (\<lambda>p. p \<noteq> [] \<and> is_sentinel (last p)) (butlast (cut_after a))"
proof (induction a)
  case Nil
  show ?case by simp
next
  case (Cons r a)
  obtain p ps where c: "cut_after a = p # ps"
    using cut_after_nonempty [of a] by (cases "cut_after a") auto
  show ?case
  proof (cases "is_sentinel r")
    case True
    then show ?thesis using Cons.IH c by simp
  next
    case False
    then show ?thesis using Cons.IH c by (cases ps) auto
  qed
qed

lemma split_at_sentinels_append:
  "\<not> list_ex is_sentinel pre \<Longrightarrow> is_sentinel s \<Longrightarrow>
   split_at_sentinels (pre @ s # post) = pre # split_at_sentinels post"
  by (induction pre) simp_all

lemma split_at_sentinels_none:
  "\<not> list_ex is_sentinel post \<Longrightarrow> split_at_sentinels post = [post]"
  by (induction post) simp_all


text \<open>
  C1, as the code has it.  Each sub-array but the last ends with the sentinel row at which the
  array was cut, so the row that \<^verbatim>\<open>path[:-1]\<close> drops is the sentinel row itself and no
  valid vertex is lost: the parts are the runs of valid rows between the sentinel rows.  For
  an input with one sentinel row the first part is the whole run of valid rows before it.
\<close>

theorem segments_drop_rule:
  "segments a = split_at_sentinels a
   \<and> list_all (\<lambda>p. p \<noteq> [] \<and> is_sentinel (last p)) (butlast (split_paths a))
   \<and> (\<not> list_ex is_sentinel pre \<and> is_sentinel s \<and> \<not> list_ex is_sentinel post
        \<longrightarrow> segments (pre @ s # post) = [pre, post])"
proof -
  have "list_all (\<lambda>p. p \<noteq> [] \<and> is_sentinel (last p)) (butlast (split_paths a))"
    by (simp only: split_paths_cut_after cut_after_sentinel_last)
  moreover have "segments (pre @ s # post) = [pre, post]"
    if "\<not> list_ex is_sentinel pre" "is_sentinel s" "\<not> list_ex is_sentinel post"
    using that by (simp add: segments_eq split_at_sentinels_append split_at_sentinels_none)
  ultimately show ?thesis by (simp add: segments_eq)
qed

theorem segments_drop_rule_witness:
  "\<not> list_ex is_sentinel [[Num 0, Num 0], [Num 1, Num 1]] \<and> is_sentinel [NaN, NaN]
   \<and> \<not> list_ex is_sentinel [[Num 2, Num 2], [Num 3, Num 3]]
   \<and> segments ([[Num 0, Num 0], [Num 1, Num 1]] @ [NaN, NaN] # [[Num 2, Num 2], [Num 3, Num 3]])
       = [[[Num 0, Num 0], [Num 1, Num 1]], [[Num 2, Num 2], [Num 3, Num 3]]]"
  using segments_drop_rule [of "[]" "[[Num 0, Num 0], [Num 1, Num 1]]" "[NaN, NaN]"
      "[[Num 2, Num 2], [Num 3, Num 3]]"]
  by (simp add: is_sentinel_def)

text \<open>
  C1, as the claim states it, fails: with one sentinel row after two valid rows, the first
  part holds both valid rows, not one fewer.
\<close>

theorem segments_keeps_row_before_sentinel:
  "hd (segments [[Num 0, Num 0], [Num 1, Num 1], [NaN, NaN], [Num 2, Num 2], [Num 3, Num 3]])
     = [[Num 0, Num 0], [Num 1, Num 1]]
   \<and> length (hd (segments [[Num 0, Num 0], [Num 1, Num 1], [NaN, NaN], [Num 2, Num 2],
         [Num 3, Num 3]]))
     \<noteq> length [[Num 0, Num 0], [Num 1, Num 1 :: coord]] - 1"
  by (simp add: segments_eq is_sentinel_def)

section \<open>Properties of \<^verbatim>\<open>wrap_lons\<close>\<close>

text \<open>
  C8: the function applies \<open>((value - base + 2 * period) mod period) + base\<close> to each value; with
  base \<open>-180\<close> and period \<open>360\<close> it sends 200 to \<open>-160\<close> and \<open>-200\<close> to 160.
\<close>

theorem wrap_lons_formula:
  "wrap_lons lons base period
     = map (\<lambda>v. py_mod (v - base + 2 * period) period + base) lons
   \<and> wrap_lons [200] (- 180) 360 = [- 160]
   \<and> wrap_lons [- 200] (- 180) 360 = [160]"
proof -
  have a: "\<lfloor>(1100::real) / 360\<rfloor> = 3" by (simp add: floor_eq_iff)
  have b: "\<lfloor>(700::real) / 360\<rfloor> = 1" by (simp add: floor_eq_iff)
  have c: "py_mod 1100 360 = 20" using a by (simp add: py_mod_def)
  have d: "py_mod 700 360 = 340" using b by (simp add: py_mod_def)
  show ?thesis using c d by (simp add: wrap_lons_def mult.commute)
qed

section \<open>Properties of the assemblers and of the line builder\<close>

text \<open>
  C2, at two inputs.  A single feature of one point has no line: neither branch of lines 227
  to 230 assigns \<^verbatim>\<open>geom\<close>, and line 231 reads the unbound variable.  After a feature of
  one line, a feature of one point is given the geometry of the feature before it.
\<close>

theorem path_to_geom_dicts_without_lines:
  "path_to_geom_dicts (Columnar [\<lparr>xcol = [Num 0], ycol = [Num 0], others = [(''name'', 1::nat)]\<rparr>])
     = Inl UnboundLocalError
   \<and> path_to_geom_dicts (Columnar
        [\<lparr>xcol = [Num 0, Num 1], ycol = [Num 0, Num 1], others = [(''name'', 1::nat)]\<rparr>,
         \<lparr>xcol = [Num 5], ycol = [Num 5], others = [(''name'', 2)]\<rparr>])
     = Inr [\<lparr>attrs = [(''name'', 1)], geometry = LineString [[Num 0, Num 0], [Num 1, Num 1]]\<rparr>,
            \<lparr>attrs = [(''name'', 2)], geometry = LineString [[Num 0, Num 0], [Num 1, Num 1]]\<rparr>]"
  by (simp add: column_stack_def subpaths_of_def assign_geom_def segments_eq is_sentinel_def)

lemma array_lines_eq:
  "array_lines path =
     map (\<lambda>p. LineString (map (take 2) p))
       (filter (\<lambda>p. 2 \<le> length p) (split_at_sentinels path))"
  by (simp add: array_lines_def segments_eq not_less)

lemma array_lines_none:
  "list_all (\<lambda>p. length p < 2) (segments path) \<Longrightarrow> array_lines path = []"
  by (simp add: array_lines_def list_all_iff filter_empty_conv)

text \<open>
  C3, as the code has it.  For array input \<^verbatim>\<open>path_to_geom\<close> returns without raising; the
  lines are the LineStrings of the parts of at least two rows, in order; with
  \<^verbatim>\<open>multi=True\<close> the result is the MultiLineString of all of them, whatever their number,
  and the plain list of them otherwise.  When no part has two rows and \<^verbatim>\<open>multi=True\<close> the
  result is the empty MultiLineString.
\<close>

theorem path_to_geom_array_collect:
  "path_to_geom (ArrayPaths paths) multi
     = Inr (if multi then Geom (MultiLineString (concat (map array_lines paths)))
            else GeomList (concat (map array_lines paths)))
   \<and> array_lines path
       = map (\<lambda>p. LineString (map (take 2) p))
           (filter (\<lambda>p. 2 \<le> length p) (split_at_sentinels path))
   \<and> (list_all (\<lambda>path. list_all (\<lambda>p. length p < 2) (segments path)) paths
        \<longrightarrow> path_to_geom (ArrayPaths paths) True = Inr (Geom (MultiLineString [])))"
proof -
  have "concat (map array_lines paths) = []"
    if "list_all (\<lambda>path. list_all (\<lambda>p. length p < 2) (segments path)) paths"
    using that by (induction paths) (simp_all add: array_lines_none)
  then show ?thesis by (simp add: collect_def array_lines_eq)
qed

theorem path_to_geom_array_collect_witness:
  "list_all (\<lambda>path. list_all (\<lambda>p. length p < 2) (segments path))
     [[[Num 0, Num 0], [NaN, NaN], [Num 1, Num 1]]]
   \<and> path_to_geom (ArrayPaths [[[Num 0, Num 0], [NaN, NaN], [Num 1, Num 1]]]) True
       = Inr (Geom (MultiLineString []))"
proof -
  have h: "list_all (\<lambda>path. list_all (\<lambda>p. length p < 2) (segments path))
             [[[Num 0, Num 0], [NaN, NaN], [Num 1, Num 1]]]"
    by (simp add: segments_eq is_sentinel_def)
  have c: "path_to_geom (ArrayPaths [[[Num 0, Num 0], [NaN, NaN], [Num 1, Num 1]]]) True
             = Inr (Geom (MultiLineString []))"
    using path_to_geom_array_collect [of "[[[Num 0, Num 0], [NaN, NaN], [Num 1, Num 1]]]" True "[]"] h
    by blast
  show ?thesis using h c by (rule conjI)
qed

text \<open>
  C3, as the claim states it, fails: one array of one part of two rows gives, with
  \<^verbatim>\<open>multi=True\<close>, a MultiLineString of one line and not the single LineString.
\<close>

theorem path_to_geom_single_line_is_multi:
  "path_to_geom (ArrayPaths [[[Num 0, Num 0], [Num 1, Num 1]]]) True
     = Inr (Geom (MultiLineString [LineString [[Num 0, Num 0], [Num 1, Num 1]]]))
   \<and> path_to_geom (ArrayPaths [[[Num 0, Num 0], [Num 1, Num 1]]]) True
     \<noteq> Inr (Geom (LineString [[Num 0, Num 0], [Num 1, Num 1]]))"
  by (simp add: collect_def array_lines_eq is_sentinel_def)

lemma map_err_Inr:
  "list_all (\<lambda>x. f x = Inr (g x)) xs \<Longrightarrow> map_err f xs = Inr (map g xs)"
  by (induction xs) simp_all

lemma linear_rings_ok:
  "list_all (\<lambda>h. 3 \<le> length h) hs \<Longrightarrow> map_err linear_ring hs = Inr (map LinearRing hs)"
  by (rule map_err_Inr) (auto simp: list_all_iff linear_ring_def)

lemma subholes_ok:
  assumes "i < length holes" and "list_all (list_all (\<lambda>h. 3 \<le> length h)) (holes ! i)"
  shows "subholes_of holes i = Inr (map (map LinearRing) (holes ! i))"
proof -
  have "map_err (map_err linear_ring) (holes ! i) = Inr (map (map LinearRing) (holes ! i))"
    by (rule map_err_Inr) (use assms(2) in \<open>simp add: list_all_iff linear_rings_ok\<close>)
  then show ?thesis using assms(1) by (simp add: subholes_of_def item_def)
qed

lemma subpolys_loop_positional:
  assumes "list_all (\<lambda>(j, arr). j < length subholes) ps"
    and "skip_invalid \<or> list_all (\<lambda>(j, arr). 2 \<le> length arr) ps"
  shows "subpolys_loop skip_invalid True subholes no_splits ps (invalid, subpolys) =
         Inr (invalid \<or> (\<not> skip_invalid \<and> list_ex (\<lambda>(j, arr). length arr < 3) ps),
              subpolys @ map (\<lambda>(j, arr). if length arr < 3 then LineString arr
                                          else Polygon arr (subholes ! j))
                (filter (\<lambda>(j, arr). \<not> (skip_invalid \<and> length arr < 3)) ps))"
  using assms
proof (induction ps arbitrary: invalid subpolys)
  case Nil
  show ?case by simp
next
  case (Cons a ps)
  obtain j arr where a: "a = (j, arr)" by (cases a)
  from Cons.prems a have j: "j < length subholes"
    and rest: "list_all (\<lambda>(j, arr). j < length subholes) ps"
    and two: "skip_invalid \<or> 2 \<le> length arr"
    and rest2: "skip_invalid \<or> list_all (\<lambda>(j, arr). 2 \<le> length arr) ps"
    by auto
  show ?case
    using Cons.IH [OF rest rest2] j two by (auto simp: a item_def line_string_def)
qed

lemma enumerate_bound:
  "list_all (\<lambda>(j, x). j < n + length xs) (enumerate n xs)"
  by (auto simp: list_all_iff enumerate_eq_zip dest: set_zip_leftD)

lemma list_all_enumerate: "list_all (\<lambda>(j, x). P x) (enumerate n xs) = list_all P xs"
  by (induction xs arbitrary: n) simp_all

lemma list_ex_enumerate: "list_ex (\<lambda>(j, x). P x) (enumerate n xs) = list_ex P xs"
  by (induction xs arbitrary: n) simp_all

lemma feature_subpolys_positional:
  assumes "i < length holes" and "length (segments array) \<le> length (holes ! i)"
    and "list_all (list_all (\<lambda>h. 3 \<le> length h)) (holes ! i)"
    and "skip_invalid \<or> list_all (\<lambda>arr. 2 \<le> length arr) (segments array)"
  shows "feature_subpolys skip_invalid True holes i array =
         Inr (\<not> skip_invalid \<and> list_ex (\<lambda>arr. length arr < 3) (segments array),
              feature_geometries holes skip_invalid i array)"
proof -
  let ?ps = "enumerate 0 (segments array)"
  let ?sub = "map (map LinearRing) (holes ! i)"
  have b: "list_all (\<lambda>(j, arr). j < length ?sub) ?ps"
    using enumerate_bound [of 0 "segments array"] assms(2)
    by (auto simp: list_all_iff)
  have t: "skip_invalid \<or> list_all (\<lambda>(j, arr). 2 \<le> length arr) ?ps"
    using assms(4) by (simp add: list_all_enumerate)
  have m: "map (\<lambda>(j, arr). if length arr < 3 then LineString arr else Polygon arr (?sub ! j))
             (filter (\<lambda>(j, arr). \<not> (skip_invalid \<and> length arr < 3)) ?ps)
         = feature_geometries holes skip_invalid i array"
    unfolding feature_geometries_def
    by (rule map_cong) (use b in \<open>auto simp: list_all_iff part_geometry_def\<close>)
  have "feature_subpolys skip_invalid True holes i array
        = subpolys_loop skip_invalid True ?sub (nan_splits array = []) ?ps (False, [])"
    using subholes_ok [OF assms(1,3)] by (simp add: feature_subpolys_def)
  also have "\<dots> = Inr (False \<or> (\<not> skip_invalid \<and> list_ex (\<lambda>(j, arr). length arr < 3) ?ps),
              [] @ map (\<lambda>(j, arr). if length arr < 3 then LineString arr
                                          else Polygon arr (?sub ! j))
                (filter (\<lambda>(j, arr). \<not> (skip_invalid \<and> length arr < 3)) ?ps))"
    by (rule subpolys_loop_positional [OF b t])
  finally show ?thesis by (simp only: m list_ex_enumerate) simp
qed

lemma feature_records_positional:
  assumes "well_formed holes skip_invalid (i, f)"
  shows "feature_records skip_invalid True holes i f
         = Inr (expected_records holes skip_invalid (i, f))"
proof -
  from assms have c: "column_stack (xcol f) (ycol f) = Inr (stacked f)"
    by (simp add: well_formed_def column_stack_def stacked_def)
  from assms have "feature_subpolys skip_invalid True holes i (stacked f) =
         Inr (\<not> skip_invalid \<and> list_ex (\<lambda>arr. length arr < 3) (segments (stacked f)),
              feature_geometries holes skip_invalid i (stacked f))"
    by (intro feature_subpolys_positional) (simp_all add: well_formed_def)
  then show ?thesis by (simp add: feature_records_def c expected_records_def)
qed

text \<open>
  C4.  For an element whose features are well formed for the declared holes, the function returns
  the records of the positional reading: the geometry built from the part at position \<open>j\<close> of
  the feature at position \<open>i\<close> is the Polygon of that part with exactly the rings of
  \<open>holes[i][j]\<close>, chosen by the two positions alone, and the records of the features follow in
  order.
\<close>

theorem holes_attached_by_position:
  assumes "list_all (well_formed holes skip_invalid) (enumerate 0 features)"
  shows "polygons_to_geom_dicts (Columnar features) True holes skip_invalid
         = Inr (concat (map (expected_records holes skip_invalid) (enumerate 0 features)))"
proof -
  have "map_err (\<lambda>(i, f). feature_records skip_invalid True holes i f)
          (enumerate 0 features)
        = Inr (map (expected_records holes skip_invalid) (enumerate 0 features))"
    by (rule map_err_Inr)
       (use assms in \<open>auto simp: list_all_iff feature_records_positional\<close>)
  then show ?thesis by simp
qed

theorem holes_attached_by_position_witness:
  "list_all (well_formed
       [[[[[Num 1, Num 1], [Num 2, Num 1], [Num 2, Num 2]]]],
        [[], [[[Num 5, Num 5], [Num 6, Num 5], [Num 6, Num 6]]]]] True)
     (enumerate 0
       [\<lparr>xcol = [Num 0, Num 9, Num 9], ycol = [Num 0, Num 0, Num 9], others = [(''name'', 1::nat)]\<rparr>,
        \<lparr>xcol = [Num 0, Num 1, Num 1, NaN, Num 4, Num 8, Num 8],
         ycol = [Num 0, Num 0, Num 1, NaN, Num 4, Num 4, Num 8], others = [(''name'', 2)]\<rparr>])
   \<and> polygons_to_geom_dicts
       (Columnar
         [\<lparr>xcol = [Num 0, Num 9, Num 9], ycol = [Num 0, Num 0, Num 9], others = [(''name'', 1::nat)]\<rparr>,
          \<lparr>xcol = [Num 0, Num 1, Num 1, NaN, Num 4, Num 8, Num 8],
           ycol = [Num 0, Num 0, Num 1, NaN, Num 4, Num 4, Num 8], others = [(''name'', 2)]\<rparr>])
       True
       [[[[[Num 1, Num 1], [Num 2, Num 1], [Num 2, Num 2]]]],
        [[], [[[Num 5, Num 5], [Num 6, Num 5], [Num 6, Num 6]]]]]
       True
     = Inr [\<lparr>attrs = [(''name'', 1)],
             geometry = Polygon [[Num 0, Num 0], [Num 9, Num 0], [Num 9, Num 9]]
                          [LinearRing [[Num 1, Num 1], [Num 2, Num 1], [Num 2, Num 2]]]\<rparr>,
            \<lparr>attrs = [(''name'', 2)],
             geometry = MultiPolygon
               [Polygon [[Num 0, Num 0], [Num 1, Num 0], [Num 1, Num 1]] [],
                Polygon [[Num 4, Num 4], [Num 8, Num 4], [Num 8, Num 8]]
                  [LinearRing [[Num 5, Num 5], [Num 6, Num 5], [Num 6, Num 6]]]]\<rparr>]"
proof -
  have w: "list_all (well_formed
       [[[[[Num 1, Num 1], [Num 2, Num 1], [Num 2, Num 2]]]],
        [[], [[[Num 5, Num 5], [Num 6, Num 5], [Num 6, Num 6]]]]] True)
     (enumerate 0
       [\<lparr>xcol = [Num 0, Num 9, Num 9], ycol = [Num 0, Num 0, Num 9], others = [(''name'', 1::nat)]\<rparr>,
        \<lparr>xcol = [Num 0, Num 1, Num 1, NaN, Num 4, Num 8, Num 8],
         ycol = [Num 0, Num 0, Num 1, NaN, Num 4, Num 4, Num 8], others = [(''name'', 2)]\<rparr>])"
    by (simp add: well_formed_def stacked_def segments_eq is_sentinel_def)
  show ?thesis
    using w holes_attached_by_position [OF w]
    by (simp add: expected_records_def emit_records_def feature_geometries_def part_geometry_def
        stacked_def segments_eq is_sentinel_def)
qed

section \<open>Properties of \<^verbatim>\<open>geom_to_array\<close>\<close>

lemma pair_rows_reshape2: "pair_rows (reshape2 zs)"
  by (induction zs rule: reshape2.induct) (simp_all add: pair_rows_def)

lemma reshape2_concat: "pair_rows a \<Longrightarrow> reshape2 (concat a) = a"
proof (induction a)
  case Nil
  show ?case by simp
next
  case (Cons r a)
  then obtain x y where "r = [x, y]"
    by (cases r; cases "tl r") (auto simp: pair_rows_def)
  with Cons show ?case by (simp add: pair_rows_def)
qed

lemma even_length_concat: "pair_rows a \<Longrightarrow> length (concat a) mod 2 = 0"
  by (induction a) (simp_all add: pair_rows_def)

lemma geom_to_arr_LineString: "pair_rows a \<Longrightarrow> geom_to_arr (LineString a) = Inr a"
  by (simp add: geom_to_arr_def even_length_concat reshape2_concat)

lemma geom_to_arr_pair_rows: "geom_to_arr g = Inr arr \<Longrightarrow> pair_rows arr"
  by (auto simp: geom_to_arr_def pair_rows_reshape2 split: sum.splits)

lemma map_err_all:
  "map_err f xs = Inr ys \<Longrightarrow> (\<And>x y. f x = Inr y \<Longrightarrow> P y) \<Longrightarrow> list_all P ys"
  by (induction xs arbitrary: ys) (auto split: sum.splits)

lemma map_err_length: "map_err f xs = Inr ys \<Longrightarrow> length ys = length xs"
  by (induction xs arbitrary: ys) (auto split: sum.splits)

lemma map_err_LineString:
  "list_all pair_rows as \<Longrightarrow> map_err geom_to_arr (map LineString as) = Inr as"
  by (induction as) (simp_all add: geom_to_arr_LineString)

lemma concatenate_part_columns:
  "concatenate_but_last (part_columns c arrs) = join_parts [NaN] (map (column c) arrs)"
proof (induction arrs rule: induct_list012)
  case 1
  show ?case by (simp add: concatenate_but_last_def part_columns_def)
next
  case (2 a)
  show ?case by (simp add: concatenate_but_last_def part_columns_def)
next
  case (3 a b rest)
  then show ?case by (simp add: concatenate_but_last_def part_columns_def)
qed

lemma column_join:
  "c < 2 \<Longrightarrow> column c (join_parts [[NaN, NaN]] arrs) = join_parts [NaN] (map (column c) arrs)"
  by (induction arrs rule: induct_list012) (auto simp: column_def less_2_cases_iff)

lemma pair_rows_join: "list_all pair_rows arrs \<Longrightarrow> pair_rows (join_parts [[NaN, NaN]] arrs)"
  by (induction arrs rule: induct_list012) (simp_all add: pair_rows_def)

lemma column_stack_columns:
  "pair_rows a \<Longrightarrow> column_stack (column 0 a) (column 1 a) = Inr a"
proof -
  assume p: "pair_rows a"
  have "map2 (\<lambda>x y. [x, y]) (column 0 a) (column 1 a) = a"
    using p
  proof (induction a)
    case Nil
    show ?case by (simp add: column_def)
  next
    case (Cons r a)
    then obtain x y where "r = [x, y]"
      by (cases r; cases "tl r") (auto simp: pair_rows_def)
    with Cons show ?case by (simp add: pair_rows_def column_def)
  qed
  then show ?thesis by (simp add: column_stack_def column_def)
qed

lemma multi_array:
  assumes "map_err geom_to_arr parts = Inr arrs"
  shows "column_stack (concatenate_but_last (part_columns 0 arrs))
                       (concatenate_but_last (part_columns 1 arrs))
         = Inr (join_parts [[NaN, NaN]] arrs)"
proof -
  have "list_all pair_rows arrs"
    using assms geom_to_arr_pair_rows by (rule map_err_all)
  then have "pair_rows (join_parts [[NaN, NaN]] arrs)" by (rule pair_rows_join)
  then show ?thesis
    using column_stack_columns [of "join_parts [[NaN, NaN]] arrs"]
    by (simp add: concatenate_part_columns column_join)
qed

lemma sentinel_nan_row: "is_sentinel [NaN, NaN]"
  by (simp add: is_sentinel_def)

lemma count_join:
  "arrs \<noteq> [] \<Longrightarrow> list_all (\<lambda>a. \<not> list_ex is_sentinel a) arrs \<Longrightarrow>
   length (filter is_sentinel (join_parts [[NaN, NaN]] arrs)) = length arrs - 1"
proof (induction arrs rule: induct_list012)
  case (3 a b rest)
  then show ?case
    by (simp add: sentinel_nan_row filter_empty_conv list_ex_iff)
qed (simp_all add: filter_empty_conv list_ex_iff)

lemma hd_join:
  "arrs \<noteq> [] \<Longrightarrow> list_all (\<lambda>a. a \<noteq> [] \<and> \<not> list_ex is_sentinel a) arrs \<Longrightarrow>
   \<not> is_sentinel (hd (join_parts [[NaN, NaN]] arrs))"
  by (induction arrs rule: induct_list012) (auto simp: list_ex_iff)

lemma last_join:
  "arrs \<noteq> [] \<Longrightarrow> list_all (\<lambda>a. a \<noteq> [] \<and> \<not> list_ex is_sentinel a) arrs \<Longrightarrow>
   \<not> is_sentinel (last (join_parts [[NaN, NaN]] arrs))"
proof (induction arrs rule: induct_list012)
  case (3 a b rest)
  have "join_parts [[NaN, NaN]] (b # rest) \<noteq> []"
    using 3 by (cases rest) auto
  with 3 show ?case by simp
qed (auto simp: list_ex_iff)

text \<open>
  C7.  For a multi-part geometry whose parts give the arrays \<open>arrs\<close>, the result is the arrays
  of the parts in order with one row of NaNs between each two neighbours, and none before the
  first or after the last.  When there is at least one part and the parts are not empty and hold
  no NaN, the result of \<open>k\<close> parts has exactly \<open>k - 1\<close> sentinel rows, and neither its first nor
  its last row is one.
\<close>

theorem geom_to_array_sentinels:
  assumes "map_err geom_to_arr parts = Inr arrs"
  shows "geom_to_array (MultiLineString parts) = Inr (join_parts [[NaN, NaN]] arrs)
     \<and> geom_to_array (MultiPolygon parts) = Inr (join_parts [[NaN, NaN]] arrs)
     \<and> geom_to_array (MultiPoint parts) = Inr (join_parts [[NaN, NaN]] arrs)
     \<and> geom_to_array (GeometryCollection parts) = Inr (join_parts [[NaN, NaN]] arrs)
     \<and> length arrs = length parts
     \<and> (parts \<noteq> [] \<and> list_all (\<lambda>a. a \<noteq> [] \<and> \<not> list_ex is_sentinel a) arrs \<longrightarrow>
          length (filter is_sentinel (join_parts [[NaN, NaN]] arrs)) = length parts - 1
          \<and> \<not> is_sentinel (hd (join_parts [[NaN, NaN]] arrs))
          \<and> \<not> is_sentinel (last (join_parts [[NaN, NaN]] arrs)))"
proof -
  have l: "length arrs = length parts" using assms by (rule map_err_length)
  have "length (filter is_sentinel (join_parts [[NaN, NaN]] arrs)) = length parts - 1
          \<and> \<not> is_sentinel (hd (join_parts [[NaN, NaN]] arrs))
          \<and> \<not> is_sentinel (last (join_parts [[NaN, NaN]] arrs))"
    if "parts \<noteq> []" "list_all (\<lambda>a. a \<noteq> [] \<and> \<not> list_ex is_sentinel a) arrs"
  proof -
    from that l have ne: "arrs \<noteq> []" by auto
    from that(2) have "list_all (\<lambda>a. \<not> list_ex is_sentinel a) arrs"
      by (simp add: list_all_iff)
    with ne have "length (filter is_sentinel (join_parts [[NaN, NaN]] arrs)) = length arrs - 1"
      by (rule count_join)
    with l hd_join [OF ne that(2)] last_join [OF ne that(2)] show ?thesis by simp
  qed
  then show ?thesis using multi_array [OF assms] l assms by simp
qed


theorem geom_to_array_sentinels_witness:
  "map_err geom_to_arr [LineString [[Num 0, Num 0], [Num 1, Num 1]],
                        LineString [[Num 2, Num 2], [Num 3, Num 3]],
                        LineString [[Num 4, Num 4], [Num 5, Num 5]]]
     = Inr [[[Num 0, Num 0], [Num 1, Num 1]], [[Num 2, Num 2], [Num 3, Num 3]],
            [[Num 4, Num 4], [Num 5, Num 5]]]
   \<and> list_all (\<lambda>a. a \<noteq> [] \<and> \<not> list_ex is_sentinel a)
        [[[Num 0, Num 0], [Num 1, Num 1]], [[Num 2, Num 2], [Num 3, Num 3]],
         [[Num 4, Num 4], [Num 5, Num 5]]]
   \<and> geom_to_array (MultiLineString [LineString [[Num 0, Num 0], [Num 1, Num 1]],
                                      LineString [[Num 2, Num 2], [Num 3, Num 3]],
                                      LineString [[Num 4, Num 4], [Num 5, Num 5]]])
     = Inr [[Num 0, Num 0], [Num 1, Num 1], [NaN, NaN], [Num 2, Num 2], [Num 3, Num 3],
            [NaN, NaN], [Num 4, Num 4], [Num 5, Num 5]]
   \<and> length (filter is_sentinel
        [[Num 0, Num 0], [Num 1, Num 1], [NaN, NaN], [Num 2, Num 2], [Num 3, Num 3],
         [NaN, NaN], [Num 4, Num 4], [Num 5, Num 5]]) = 3 - 1"
proof -
  have h: "map_err geom_to_arr [LineString [[Num 0, Num 0], [Num 1, Num 1]],
                        LineString [[Num 2, Num 2], [Num 3, Num 3]],
                        LineString [[Num 4, Num 4], [Num 5, Num 5]]]
     = Inr [[[Num 0, Num 0], [Num 1, Num 1]], [[Num 2, Num 2], [Num 3, Num 3]],
            [[Num 4, Num 4], [Num 5, Num 5]]]"
    by (simp add: geom_to_arr_def)
  show ?thesis
    using h geom_to_array_sentinels [OF h] by (simp add: is_sentinel_def)
qed

section \<open>Properties of \<^verbatim>\<open>project_extents\<close>\<close>

lemma wrap_identity:
  assumes "- 180 \<le> v" and "v < 180"
  shows "py_mod (v - (- 180) + 360 * 2) 360 + (- 180) = v"
proof -
  have f: "\<lfloor>(v - (- 180) + 360 * 2) / 360\<rfloor> = 2"
    using assms by (simp add: floor_eq_iff)
  show ?thesis unfolding py_mod_def f by simp
qed

lemma linspace_between:
  assumes "1 < n" and "i < n"
  shows "min a b \<le> a + real i * ((b - a) / real (n - 1))
       \<and> a + real i * ((b - a) / real (n - 1)) \<le> max a b"
proof -
  define t where "t = real i / real (n - 1)"
  have t: "0 \<le> t" "t \<le> 1"
    using assms by (simp_all add: t_def)
  have e: "a + real i * ((b - a) / real (n - 1)) = a + t * (b - a)"
    by (simp add: t_def)
  show ?thesis
  proof (cases "a \<le> b")
    case True
    then have "0 \<le> t * (b - a)" "t * (b - a) \<le> b - a"
      using t by (simp_all add: mult_left_le_one_le)
    then have "a \<le> a + t * (b - a)" "a + t * (b - a) \<le> b"
      by linarith+
    with True have "min a b \<le> a + t * (b - a) \<and> a + t * (b - a) \<le> max a b"
      by (simp only: min_def max_def if_True simp_thms)
    then show ?thesis by (simp only: e)
  next
    case False
    then have "0 \<le> t * (a - b)" "t * (a - b) \<le> a - b"
      using t by (simp_all add: mult_left_le_one_le)
    then have "t * (b - a) \<le> 0" "b - a \<le> t * (b - a)"
      by (simp_all add: algebra_simps)
    then have "b \<le> a + t * (b - a)" "a + t * (b - a) \<le> a"
      by linarith+
    with False have "min a b \<le> a + t * (b - a) \<and> a + t * (b - a) \<le> max a b"
      by (simp only: min_def max_def if_False simp_thms)
    then show ?thesis by (simp only: e)
  qed
qed

lemma set_linspace_between:
  assumes "1 < n" and "v \<in> set (linspace a b n)"
  shows "min a b \<le> v \<and> v \<le> max a b"
  using assms linspace_between [OF assms(1)] by (auto simp: linspace_def)

lemma linspace_first: "1 < n \<Longrightarrow> a \<in> set (linspace a b n)"
proof -
  assume "1 < n"
  then have "0 \<in> set [0..<n]" by simp
  then have "a + real (0::nat) * ((b - a) / real (n - 1)) \<in> set (linspace a b n)"
    unfolding linspace_def by (simp only: set_map image_eqI)
  then show ?thesis by simp
qed

lemma linspace_last: "1 < n \<Longrightarrow> b \<in> set (linspace a b n)"
proof -
  assume n: "1 < n"
  then have "n - 1 \<in> set [0..<n]" by simp
  then have "a + real (n - 1) * ((b - a) / real (n - 1)) \<in> set (linspace a b n)"
    unfolding linspace_def by (simp only: set_map image_eqI)
  then show ?thesis using n by simp
qed

lemma wrap_linspace:
  assumes "1 < n" and "- 180 \<le> min a b" and "max a b < 180"
  shows "wrap_lons (linspace a b n) (- 180) 360 = linspace a b n"
proof -
  have "py_mod (v - (- 180) + 360 * 2) 360 + (- 180) = v" if "v \<in> set (linspace a b n)" for v
  proof -
    from set_linspace_between [OF assms(1) that] assms(2,3)
    have "- 180 \<le> v" "v < 180" by linarith+
    then show ?thesis by (rule wrap_identity)
  qed
  then show ?thesis
    unfolding wrap_lons_def by (simp add: map_idI)
qed

lemma x_range_cylindrical:
  assumes "cylindrical src" and "- 180 \<le> min a b" and "max a b < 180"
  shows "x_range src a b = (min a b, max a b)"
proof -
  let ?l = "linspace a b 10000"
  have n: "(1::nat) < 10000" by simp
  have w: "wrap_lons ?l (- 180) 360 = ?l" using n assms(2,3) by (rule wrap_linspace)
  have mn: "Min (set ?l) = min a b"
  proof (rule Min_eqI)
    show "finite (set ?l)" by simp
    show "min a b \<le> y" if "y \<in> set ?l" for y
      using set_linspace_between [OF n that] by simp
    show "min a b \<in> set ?l"
      using linspace_first [OF n, of a b] linspace_last [OF n, of b a] by (simp add: min_def)
  qed
  have mx: "Max (set ?l) = max a b"
  proof (rule Max_eqI)
    show "finite (set ?l)" by simp
    show "y \<le> max a b" if "y \<in> set ?l" for y
      using set_linspace_between [OF n that] by simp
    show "max a b \<in> set ?l"
      using linspace_first [OF n, of a b] linspace_last [OF n, of b a] by (simp add: max_def)
  qed
  show ?thesis using assms(1) by (simp add: x_range_def w mn mx)
qed

lemma domain_box_inside:
  assumes "y_limits src = (cy1, cy2)" and "cy1 \<le> y1" and "y2 \<le> cy2"
    and "x1 + tol \<le> x2 - tol"
    and "if cylindrical src then - 180 \<le> x1 + tol \<and> x2 - tol < 180
         else fst (x_limits src) \<le> x1 + tol \<and> x2 - tol \<le> snd (x_limits src)"
  shows "domain_box (x1, y1, x2, y2) src tol = (x1 + tol, y1 + tol, x2 - tol, y2 - tol)"
proof (cases "cylindrical src")
  case True
  with assms(5) have "- 180 \<le> min (x1 + tol) (x2 - tol)" "max (x1 + tol) (x2 - tol) < 180"
    using assms(4) by simp_all
  with True have "x_range src (x1 + tol) (x2 - tol) = (min (x1 + tol) (x2 - tol), max (x1 + tol) (x2 - tol))"
    by (rule x_range_cylindrical)
  then have "x_range src (x1 + tol) (x2 - tol) = (x1 + tol, x2 - tol)"
    using assms(4) by simp
  then show ?thesis using assms(1,2,3) by (simp add: domain_box_def)
next
  case False
  with assms(5) have "x_range src (x1 + tol) (x2 - tol) = (x1 + tol, x2 - tol)"
    by (simp add: x_range_def split_def)
  then show ?thesis using assms(1,2,3) by (simp add: domain_box_def)
qed

text \<open>
  C5, as the code has it.  Let the box lie within the limits of y of the source system, be at
  least \<open>2 * tol\<close> wide and high, and have its shrunk range of x within \<open>[-180, 180)\<close> for a
  cylindrical system and within the limits of x otherwise; let the shrunk box lie inside the
  boundary.  Then with the destination equal to the source the result is the box narrowed by
  \<open>tol\<close> on every side, and for \<open>tol \<ge> 0\<close> it is no wider than the input on any side.
\<close>

theorem project_extents_identity:
  assumes "y_limits src = (cy1, cy2)" and "cy1 \<le> y1" and "y2 \<le> cy2"
    and "x1 + tol \<le> x2 - tol" and "y1 + tol \<le> y2 - tol" and "0 \<le> tol"
    and "if cylindrical src then - 180 \<le> x1 + tol \<and> x2 - tol < 180
         else fst (x_limits src) \<le> x1 + tol \<and> x2 - tol \<le> snd (x_limits src)"
    and "inside_boundary lib src (x1 + tol, y1 + tol, x2 - tol, y2 - tol)"
  shows "project_extents lib project_geometry (x1, y1, x2, y2) src src tol
           = Inr (x1 + tol, y1 + tol, x2 - tol, y2 - tol)
         \<and> x1 \<le> x1 + tol \<and> y1 \<le> y1 + tol \<and> x2 - tol \<le> x2 \<and> y2 - tol \<le> y2"
  using domain_box_inside [OF assms(1,2,3,4,7)] assms(6,8)
  by (simp add: project_extents_def inside_boundary_def)


theorem project_extents_identity_witness:
  "y_limits plate_carree = (- 90, 90) \<and> (- 90 :: real) \<le> 0 \<and> (10 :: real) \<le> 90
   \<and> (0 :: real) + 1 / 1000000 \<le> 10 - 1 / 1000000 \<and> (0 :: real) \<le> 1 / 1000000
   \<and> cylindrical plate_carree
   \<and> (- 180 :: real) \<le> 0 + 1 / 1000000 \<and> (10 :: real) - 1 / 1000000 < 180
   \<and> inside_boundary rect_lib plate_carree
        (0 + 1 / 1000000, 0 + 1 / 1000000, 10 - 1 / 1000000, 10 - 1 / 1000000)
   \<and> project_extents rect_lib (\<lambda>d g s. Inr g) (0, 0, 10, 10) plate_carree plate_carree
        (1 / 1000000)
       = Inr (0 + 1 / 1000000, 0 + 1 / 1000000, 10 - 1 / 1000000, 10 - 1 / 1000000)"
proof -
  have i: "inside_boundary rect_lib plate_carree
        (0 + 1 / 1000000, 0 + 1 / 1000000, 10 - 1 / 1000000, 10 - 1 / 1000000)"
    by (simp add: inside_boundary_def rect_lib_def rect_polygon_def plate_carree_def)
  have y: "y_limits plate_carree = (- 90, 90)" and c: "cylindrical plate_carree"
    by (simp_all add: plate_carree_def)
  have "project_extents rect_lib (\<lambda>d g s. Inr g) (0, 0, 10, 10) plate_carree plate_carree
        (1 / 1000000)
       = Inr (0 + 1 / 1000000, 0 + 1 / 1000000, 10 - 1 / 1000000, 10 - 1 / 1000000)"
    using project_extents_identity [OF y _ _ _ _ _ _ i, of "\<lambda>d g s. Inr g"] c by simp
  with i y c show ?thesis by simp
qed

text \<open>
  C5, as the claim states it, fails for a box narrower than \<open>2 * tol\<close>: shrinking turns it
  inside out, and the minimum and maximum taken afterwards give a box wider than the input.
  The box of the single point \<open>(0, 0)\<close> in the equirectangular system comes back as the square
  of side \<open>2 * tol\<close> around the point.
\<close>

theorem project_extents_point_box_widens:
  "project_extents rect_lib (\<lambda>d g s. Inr g) (0, 0, 0, 0) plate_carree plate_carree (1 / 1000000)
     = Inr (- (1 / 1000000), - (1 / 1000000), 1 / 1000000, 1 / 1000000)
   \<and> project_extents rect_lib (\<lambda>d g s. Inr g) (0, 0, 0, 0) plate_carree plate_carree (1 / 1000000)
     \<noteq> Inr (0 + 1 / 1000000, 0 + 1 / 1000000, 0 - 1 / 1000000, 0 - 1 / 1000000)
   \<and> - (1 / 1000000) < (0 :: real)"
proof -
  have "x_range plate_carree (0 + 1 / 1000000) (0 - 1 / 1000000)
        = (min (0 + 1 / 1000000) (0 - 1 / 1000000), max (0 + 1 / 1000000) (0 - 1 / 1000000))"
    by (rule x_range_cylindrical) (simp_all add: plate_carree_def)
  then have "domain_box (0, 0, 0, 0) plate_carree (1 / 1000000)
        = (- (1 / 1000000), 1 / 1000000, 1 / 1000000, - (1 / 1000000))"
    by (simp add: domain_box_def plate_carree_def)
  then show ?thesis
    by (simp add: project_extents_def rect_lib_def rect_polygon_def plate_carree_def)
qed

text \<open>
  C6, as the code has it.  With differing systems, a \<^verbatim>\<open>ValueError\<close> of
  \<^verbatim>\<open>project_geometry\<close> is raised again as the \<^verbatim>\<open>ValueError\<close> whose message names the
  classes of the source and of the destination and asks to check the crs; an exception of any
  other type leaves the function unchanged.  In no case of failure does the function
  return a result.
\<close>

theorem project_extents_reraises:
  "(src \<noteq> dest \<and>
    project_geometry dest (geom_in_src_proj lib src (polygon lib (box_ring (domain_box extents src tol)))) src
      = Inl (ValueError m)
    \<longrightarrow> project_extents lib project_geometry extents src dest tol
          = Inl (projection_error (kind src) (kind dest)))
   \<and> (src \<noteq> dest \<and> \<not> is_value_error e \<and>
    project_geometry dest (geom_in_src_proj lib src (polygon lib (box_ring (domain_box extents src tol)))) src
      = Inl e
    \<longrightarrow> project_extents lib project_geometry extents src dest tol = Inl e)
   \<and> (src \<noteq> dest \<and>
    project_geometry dest (geom_in_src_proj lib src (polygon lib (box_ring (domain_box extents src tol)))) src
      = Inl e'
    \<longrightarrow> isl (project_extents lib project_geometry extents src dest tol))"
  by (cases e; cases e') (simp_all add: project_extents_def)

theorem project_extents_reraises_witness:
  "plate_carree \<noteq> mercator
   \<and> (\<lambda>d g s. Inl (ValueError ''infinite''))
        mercator
        (geom_in_src_proj rect_lib plate_carree
           (polygon rect_lib (box_ring (domain_box (0, 0, 10, 10) plate_carree (1 / 1000000)))))
        plate_carree
      = (Inl (ValueError ''infinite'') :: pyerror + (real \<times> real \<times> real \<times> real) option)
   \<and> project_extents rect_lib (\<lambda>d g s. Inl (ValueError ''infinite'')) (0, 0, 10, 10)
        plate_carree mercator (1 / 1000000)
      = Inl (ValueError (''Could not project data from PlateCarree projection to Mercator ''
           @ ''projection. Ensure the coordinate reference system (crs) matches your data ''
           @ ''and the kdims.''))
   \<and> \<not> is_value_error TypeError
   \<and> project_extents rect_lib (\<lambda>d g s. Inl TypeError) (0, 0, 10, 10)
        plate_carree mercator (1 / 1000000)
      = Inl TypeError"
proof -
  have n: "plate_carree \<noteq> mercator" by (simp add: plate_carree_def mercator_def)
  have "project_extents rect_lib (\<lambda>d g s. Inl (ValueError ''infinite'')) (0, 0, 10, 10)
          plate_carree mercator (1 / 1000000)
        = Inl (projection_error (kind plate_carree) (kind mercator))"
    using project_extents_reraises
      [of plate_carree mercator "\<lambda>d g s. Inl (ValueError ''infinite'')" rect_lib
          "(0, 0, 10, 10)" "1 / 1000000" "''infinite''"] n
    by simp
  moreover have "project_extents rect_lib (\<lambda>d g s. Inl TypeError) (0, 0, 10, 10)
        plate_carree mercator (1 / 1000000)
      = Inl TypeError"
    using project_extents_reraises
      [of plate_carree mercator "\<lambda>d g s. Inl TypeError" rect_lib
          "(0, 0, 10, 10)" "1 / 1000000" "[]" TypeError] n
    by simp
  ultimately show ?thesis
    using n by (simp add: projection_error_def plate_carree_def mercator_def)
qed

text \<open>
  C6, as the claim states it, fails for a failure that is not a \<^verbatim>\<open>ValueError\<close>: it is not
  caught, and the caller sees it unchanged instead of the descriptive error.
\<close>

theorem project_extents_other_error_passes:
  "project_extents rect_lib (\<lambda>d g s. Inl (OtherError ''TypeError'')) (0, 0, 10, 10)
      plate_carree mercator (1 / 1000000)
     = Inl (OtherError ''TypeError'')
   \<and> project_extents rect_lib (\<lambda>d g s. Inl (OtherError ''TypeError'')) (0, 0, 10, 10)
      plate_carree mercator (1 / 1000000)
     \<noteq> Inl (projection_error ''PlateCarree'' ''Mercator'')"
  by (simp add: project_extents_def plate_carree_def mercator_def projection_error_def)

section \<open>Properties of \<^verbatim>\<open>to_ccw\<close>\<close>

lemma to_ccw_cases:
  "to_ccw is_ccw orient g =
     (if is_polygon g \<and> \<not> is_ccw (LinearRing (exterior_coords g)) then orient g else g)"
  by (cases g) simp_all

lemma fadd_zero: "fadd (Num 0) c = c" "fadd c (Num 0) = c"
  by (cases c; simp)+

lemma fadd_assoc: "fadd (fadd a b) c = fadd a (fadd b c)"
  by (cases a; cases b; cases c) simp_all

lemma fadd_commute: "fadd a b = fadd b a"
  by (cases a; cases b) simp_all

lemma fneg_fadd: "fneg (fadd a b) = fadd (fneg a) (fneg b)"
  by (cases a; cases b) simp_all

lemma cross_swap: "cross q p = fneg (cross p q)"
  by (cases "x_of p"; cases "y_of p"; cases "x_of q"; cases "y_of q") (simp_all add: cross_def)

lemma shoelace_snoc:
  "shoelace (ps @ [q]) = (if ps = [] then Num 0 else fadd (shoelace ps) (cross (last ps) q))"
proof (induction ps rule: induct_list012)
  case 1
  show ?case by simp
next
  case (2 p)
  show ?case by (simp add: fadd_zero)
next
  case (3 p p' ps)
  then show ?case by (simp add: fadd_assoc)
qed

lemma shoelace_rev: "shoelace (rev ps) = fneg (shoelace ps)"
proof (induction ps rule: induct_list012)
  case 1
  show ?case by simp
next
  case (2 p)
  show ?case by simp
next
  case (3 p q ps)
  have "shoelace (rev (p # q # ps)) = shoelace (rev (q # ps) @ [p])" by simp
  also have "\<dots> = fadd (shoelace (rev (q # ps))) (cross (last (rev (q # ps))) p)"
    by (simp only: shoelace_snoc) simp
  also have "\<dots> = fadd (fneg (shoelace (q # ps))) (fneg (cross p q))"
    using 3 by (simp add: cross_swap [of q p] last_rev)
  also have "\<dots> = fneg (shoelace (p # q # ps))"
    by (simp add: fneg_fadd fadd_commute)
  finally show ?case .
qed

lemma signed_area_rev: "signed_area (rev ps) = fneg (signed_area ps)"
  by (cases "shoelace ps") (simp_all add: signed_area_def shoelace_rev)

lemma cross_numeric: "numeric_row p \<Longrightarrow> numeric_row q \<Longrightarrow> \<not> isnan (cross p q)"
  by (cases "x_of p"; cases "y_of p"; cases "x_of q"; cases "y_of q")
     (simp_all add: cross_def numeric_row_def)

lemma shoelace_numeric: "list_all numeric_row ps \<Longrightarrow> \<not> isnan (shoelace ps)"
proof (induction ps rule: induct_list012)
  case (3 p q ps)
  then have "\<not> isnan (cross p q)" "\<not> isnan (shoelace (q # ps))"
    by (simp_all add: cross_numeric)
  then show ?case by (cases "cross p q"; cases "shoelace (q # ps)") simp_all
qed simp_all

lemma signed_area_numeric: "list_all numeric_row ps \<Longrightarrow> \<not> isnan (signed_area ps)"
  using shoelace_numeric [of ps] by (cases "shoelace ps") (simp_all add: signed_area_def)

lemma nonneg_rev:
  "\<not> isnan (signed_area ps) \<Longrightarrow> \<not> nonneg (signed_area ps) \<Longrightarrow> nonneg (signed_area (rev ps))"
  by (cases "signed_area ps") (simp_all add: signed_area_rev)

lemma to_ccw_shapely_idem:
  assumes "\<not> is_polygon g \<or> list_all numeric_row (exterior_coords g)"
  shows "to_ccw shapely_is_ccw shapely_orient (to_ccw shapely_is_ccw shapely_orient g)
         = to_ccw shapely_is_ccw shapely_orient g"
proof (cases g)
  case (Polygon shell holes)
  with assms have n: "\<not> isnan (signed_area shell)" by (simp add: signed_area_numeric)
  show ?thesis
  proof (cases "nonneg (signed_area shell)")
    case True
    then show ?thesis by (simp add: Polygon shapely_is_ccw_def)
  next
    case False
    with n have "nonneg (signed_area (rev shell))" by (rule nonneg_rev)
    with False show ?thesis by (simp add: Polygon shapely_is_ccw_def)
  qed
qed simp_all

text \<open>
  C10, as the code has it.  The function returns its argument when it is not a polygon or when
  the shell of the polygon is counter-clockwise, and the result of \<^verbatim>\<open>orient\<close> otherwise,
  whatever the two library functions are.  With the two functions as the geometry library
  computes them, applying it twice gives what applying it once gives for every geometry that
  is not a polygon or whose exterior coordinates are numbers.
\<close>

theorem to_ccw_idempotent:
  "(\<not> is_polygon g \<or> is_ccw (LinearRing (exterior_coords g)) \<longrightarrow> to_ccw is_ccw orient g = g)
   \<and> (is_polygon g \<and> \<not> is_ccw (LinearRing (exterior_coords g))
        \<longrightarrow> to_ccw is_ccw orient g = orient g)
   \<and> (\<not> is_polygon g \<or> list_all numeric_row (exterior_coords g)
        \<longrightarrow> to_ccw shapely_is_ccw shapely_orient (to_ccw shapely_is_ccw shapely_orient g)
            = to_ccw shapely_is_ccw shapely_orient g)"
  using to_ccw_shapely_idem [of g] by (simp add: to_ccw_cases)

theorem to_ccw_idempotent_witness:
  "is_polygon (Polygon [[Num 0, Num 0], [Num 0, Num 1], [Num 1, Num 1], [Num 1, Num 0],
                    [Num 0, Num 0]] [])
   \<and> \<not> shapely_is_ccw (LinearRing (exterior_coords
          (Polygon [[Num 0, Num 0], [Num 0, Num 1], [Num 1, Num 1], [Num 1, Num 0],
                    [Num 0, Num 0]] [])))
   \<and> list_all numeric_row (exterior_coords
          (Polygon [[Num 0, Num 0], [Num 0, Num 1], [Num 1, Num 1], [Num 1, Num 0],
                    [Num 0, Num 0]] []))
   \<and> to_ccw shapely_is_ccw shapely_orient
          (Polygon [[Num 0, Num 0], [Num 0, Num 1], [Num 1, Num 1], [Num 1, Num 0],
                    [Num 0, Num 0]] [])
       = Polygon [[Num 0, Num 0], [Num 1, Num 0], [Num 1, Num 1], [Num 0, Num 1],
                  [Num 0, Num 0]] []
   \<and> to_ccw shapely_is_ccw shapely_orient (to_ccw shapely_is_ccw shapely_orient
          (Polygon [[Num 0, Num 0], [Num 0, Num 1], [Num 1, Num 1], [Num 1, Num 0],
                    [Num 0, Num 0]] []))
       = to_ccw shapely_is_ccw shapely_orient
          (Polygon [[Num 0, Num 0], [Num 0, Num 1], [Num 1, Num 1], [Num 1, Num 0],
                    [Num 0, Num 0]] [])"
  using to_ccw_idempotent
    [of "Polygon [[Num 0, Num 0], [Num 0, Num 1], [Num 1, Num 1], [Num 1, Num 0],
                    [Num 0, Num 0]] []" shapely_is_ccw shapely_orient]
  by (simp add: shapely_is_ccw_def signed_area_def cross_def numeric_row_def)

text \<open>
  C10, as the claim states it, fails for a polygon with a NaN among its exterior coordinates:
  its signed area is NaN, every comparison with it is false, so the shell counts as not
  counter-clockwise and is reversed at each application.
\<close>

theorem to_ccw_nan_shell_flips:
  "to_ccw shapely_is_ccw shapely_orient
     (Polygon [[Num 0, Num 0], [NaN, Num 1], [Num 1, Num 1], [Num 0, Num 0]] [])
     = Polygon [[Num 0, Num 0], [Num 1, Num 1], [NaN, Num 1], [Num 0, Num 0]] []
   \<and> to_ccw shapely_is_ccw shapely_orient (to_ccw shapely_is_ccw shapely_orient
     (Polygon [[Num 0, Num 0], [NaN, Num 1], [Num 1, Num 1], [Num 0, Num 0]] []))
     = Polygon [[Num 0, Num 0], [NaN, Num 1], [Num 1, Num 1], [Num 0, Num 0]] []
   \<and> to_ccw shapely_is_ccw shapely_orient (to_ccw shapely_is_ccw shapely_orient
     (Polygon [[Num 0, Num 0], [NaN, Num 1], [Num 1, Num 1], [Num 0, Num 0]] []))
     \<noteq> to_ccw shapely_is_ccw shapely_orient
     (Polygon [[Num 0, Num 0], [NaN, Num 1], [Num 1, Num 1], [Num 0, Num 0]] [])"
  by (simp add: shapely_is_ccw_def signed_area_def cross_def)

section \<open>Properties of \<^verbatim>\<open>proj_to_cartopy\<close>\<close>

lemma call_arguments_mercator:
  assumes "call_arguments st = Inr c" and "cls c = Mercator"
  shows "map_of (kwargs c) ''false_easting'' = None \<and> map_of (kwargs c) ''false_northing'' = None"
proof -
  from assms obtain kw where
    "kwargs c = AList.delete ''false_northing'' (AList.delete ''false_easting'' kw)"
    by (auto simp: call_arguments_def Let_def split: sum.splits option.splits if_splits)
  then show ?thesis by (simp add: AList.delete_conv)
qed

lemma split_plus:
  "split_on CHR ''+'' ''+proj=merc +x_0=500000 +y_0=100 +lat_0=0''
   = ['''', ''proj=merc '', ''x_0=500000 '', ''y_0=100 '', ''lat_0=0'']"
  by (simp add: split_on_def)

lemma split_eq:
  "split_on CHR ''='' ''proj=merc '' = [''proj'', ''merc '']"
  "split_on CHR ''='' ''x_0=500000 '' = [''x_0'', ''500000 '']"
  "split_on CHR ''='' ''y_0=100 '' = [''y_0'', ''100 '']"
  "split_on CHR ''='' ''lat_0=0'' = [''lat_0'', ''0'']"
  "split_on CHR ''='' '''' = ['''']"
  by (simp_all add: split_on_def)

lemma strip_simps:
  "strip ''proj'' = ''proj''" "strip ''merc '' = ''merc''"
  "strip ''x_0'' = ''x_0''" "strip ''500000 '' = ''500000''"
  "strip ''y_0'' = ''y_0''" "strip ''100 '' = ''100''"
  "strip ''lat_0'' = ''lat_0''" "strip ''0'' = ''0''"
  by (simp_all add: strip_def isspace_def)

lemma parse_merc_string:
  assumes "float_of ''merc'' = None"
  shows "parse_tokens float_of ''+proj=merc +x_0=500000 +y_0=100 +lat_0=0''
        = \<lparr>cl = Some Mercator,
            kw_proj = [(''false_easting'', to_float float_of ''500000''),
                       (''false_northing'', to_float float_of ''100''),
                       (''central_latitude'', to_float float_of ''0'')],
            kw_globe = [], kw_std = []\<rparr>"
proof -
  have v: "to_float float_of ''merc'' = Str ''merc''"
    using assms by (simp add: to_float_def)
  show ?thesis
    unfolding parse_tokens_def split_plus
    by (simp add: token_step_def split_eq strip_simps v select_class_def store_def
        km_proj_def km_globe_def km_std_def)
qed

text \<open>
  C9, at the string of the claim.  The loop selects the class Mercator and collects the false
  easting, the false northing and the central latitude; lines 419 to 421 drop the first two,
  so the call is made with the central latitude alone.  The constructor of Mercator has no such
  parameter: the call raises a \<^verbatim>\<open>TypeError\<close> and no projection is constructed.
\<close>

theorem merc_string_raises:
  assumes "float_of ''merc'' = None"
    and "\<not> has_parameter (signatures Mercator) ''central_latitude''"
  shows "call_arguments (parse_tokens float_of ''+proj=merc +x_0=500000 +y_0=100 +lat_0=0'')
           = Inr \<lparr>cls = Mercator, globe = None,
                  kwargs = [(''central_latitude'', to_float float_of ''0'')]\<rparr>
         \<and> proj_to_cartopy float_of signatures None
              (Some \<lparr>is_latlong = False, srs = ''+proj=merc +x_0=500000 +y_0=100 +lat_0=0''\<rparr>)
           = Inl TypeError"
proof -
  have p: "parse_tokens float_of ''+proj=merc +x_0=500000 +y_0=100 +lat_0=0''
        = \<lparr>cl = Some Mercator,
            kw_proj = [(''false_easting'', to_float float_of ''500000''),
                       (''false_northing'', to_float float_of ''100''),
                       (''central_latitude'', to_float float_of ''0'')],
            kw_globe = [], kw_std = []\<rparr>"
    using parse_merc_string [of float_of] assms(1) by blast
  show ?thesis
    using assms(2)
    by (simp add: p call_arguments_def proj_to_cartopy_def construct_def call_class_def)
qed

theorem merc_string_raises_witness:
  "float_of_digits ''merc'' = None
   \<and> \<not> has_parameter (cartopy_signatures Mercator) ''central_latitude''
   \<and> call_arguments
        (parse_tokens float_of_digits ''+proj=merc +x_0=500000 +y_0=100 +lat_0=0'')
      = Inr \<lparr>cls = Mercator, globe = None, kwargs = [(''central_latitude'', Float 0)]\<rparr>
   \<and> proj_to_cartopy float_of_digits cartopy_signatures None
        (Some \<lparr>is_latlong = False, srs = ''+proj=merc +x_0=500000 +y_0=100 +lat_0=0''\<rparr>)
      = Inl TypeError"
proof -
  have f: "float_of_digits ''merc'' = None"
    and z: "to_float float_of_digits ''0'' = Float 0"
    and h: "\<not> has_parameter (cartopy_signatures Mercator) ''central_latitude''"
    by (simp_all add: float_of_digits_def to_float_def has_parameter_def)
  show ?thesis
    using f h merc_string_raises [of float_of_digits cartopy_signatures] by (simp add: z)
qed

end
